theory Spec2Isabelle
  imports Main
begin

section \<open>The inspection core of populate\_cbv\<close>

text \<open>
  A shallow embedding of \<^verbatim>\<open>cbv/management/commands/populate_cbv.py\<close>.  The Python
  runtime that the importer reflects on is an explicit \<open>world\<close>: a heap of objects, each
  carrying what the calls of \<^verbatim>\<open>inspect\<close> report about it, the module registry of
  \<^verbatim>\<open>importlib.import_module\<close>, \<^verbatim>\<open>sys.path\<close> and the values of
  \<^verbatim>\<open>object.__dict__\<close>.  Exceptions are values of type \<open>error\<close>.
\<close>

subsection \<open>Exceptions\<close>

datatype error =
    ImproperlyConfigured string
  | TypeError
  | IndexError
  | OSError
  | ValueError
  | KeyError string
  | ImportError
  | RecursionError

subsection \<open>Objects of the inspected runtime\<close>

type_synonym oid = nat

text \<open>A positional argument of a deferred call: a \<^verbatim>\<open>str\<close>, or anything else.\<close>

datatype pyarg = AStr string | AOther string

text \<open>
  What the classifying tests of the importer see in an object:
  \<^verbatim>\<open>inspect.isbuiltin\<close>, \<^verbatim>\<open>ismodule\<close>, \<^verbatim>\<open>isclass\<close>, \<^verbatim>\<open>ismethod\<close>,
  \<^verbatim>\<open>isfunction\<close>, \<^verbatim>\<open>isinstance(member, Promise)\<close> and \<^verbatim>\<open>isinstance(member, str)\<close>.
  A \<open>DPromise\<close> carries the second component of \<^verbatim>\<open>promise.__reduce__()\<close>: the name of
  the wrapped function, the positional arguments and the keyword-argument dictionary.
  \<open>DOther\<close> is any other object.
\<close>

datatype pydata =
    DBuiltin
  | DModule
  | DClass
  | DMethod
  | DFunction
  | DPromise string "pyarg list" "(string \<times> pyarg) list"
  | DStr string
  | DOther

text \<open>The result of \<^verbatim>\<open>inspect.getfullargspec\<close>, with values and annotations as text.\<close>

record argspec =
  as_args :: "string list"
  as_varargs :: "string option"
  as_varkw :: "string option"
  as_defaults :: "string list"
  as_kwonlyargs :: "string list"
  as_kwonlydefaults :: "(string \<times> string) list"
  as_annotations :: "(string \<times> string) list"

record pyobj =
  data :: pydata
  dunder_name :: string
  dunder_module :: string
  dunder_bases :: "oid list"
  dunder_wrapped :: "oid option"
  str_text :: string
  getdoc :: "string option"
  getfile :: "error + string"
  getsourcefile :: "error + string option"
  getsourcelines :: "error + (string list \<times> int)"
  getfullargspec :: "error + argspec"
  getmembers :: "(string \<times> oid) list"

record world =
  heap :: "oid \<Rightarrow> pyobj"
  import_module :: "string \<Rightarrow> error + oid"
  sys_path :: "string list"
  object_dict_values :: "oid list"

definition isbuiltin :: "world \<Rightarrow> oid \<Rightarrow> bool" where
  "isbuiltin w x = (data (heap w x) = DBuiltin)"

definition ismodule :: "world \<Rightarrow> oid \<Rightarrow> bool" where
  "ismodule w x = (data (heap w x) = DModule)"

definition isclass :: "world \<Rightarrow> oid \<Rightarrow> bool" where
  "isclass w x = (data (heap w x) = DClass)"

definition ismethod :: "world \<Rightarrow> oid \<Rightarrow> bool" where
  "ismethod w x = (data (heap w x) = DMethod)"

definition isfunction :: "world \<Rightarrow> oid \<Rightarrow> bool" where
  "isfunction w x = (data (heap w x) = DFunction)"

text \<open>
  \<^verbatim>\<open>a == b\<close>: two objects are equal when they are the same object; two strings also when
  their contents agree.  Every other object modelled here has the default, identity
  \<^verbatim>\<open>__eq__\<close>.
\<close>

definition py_eq :: "world \<Rightarrow> oid \<Rightarrow> oid \<Rightarrow> bool" where
  "py_eq w a b =
     (a = b \<or> (case (data (heap w a), data (heap w b)) of
                  (DStr s, DStr t) \<Rightarrow> s = t
                | _ \<Rightarrow> False))"

text \<open>\<^verbatim>\<open>getattr(obj, name, None)\<close>, read off the members that \<^verbatim>\<open>inspect\<close> lists.\<close>

definition getattr :: "world \<Rightarrow> oid \<Rightarrow> string \<Rightarrow> oid option" where
  "getattr w x n = map_of (getmembers (heap w x)) n"

subsection \<open>Strings\<close>

text \<open>\<^verbatim>\<open>s.startswith(p)\<close>\<close>

fun startswith :: "string \<Rightarrow> string \<Rightarrow> bool" where
  "startswith s [] = True"
| "startswith [] (c # p) = False"
| "startswith (d # s) (c # p) = (d = c \<and> startswith s p)"

text \<open>
  \<^verbatim>\<open>s.rpartition(".")\<close>: the text before the last dot, the dot, the text after it; when
  there is no dot, two empty strings and \<open>s\<close>.
\<close>

definition rpartition_dot :: "string \<Rightarrow> string \<times> string \<times> string" where
  "rpartition_dot s =
     (if CHR ''.'' \<in> set s
      then (rev (tl (dropWhile (\<lambda>c. c \<noteq> CHR ''.'') (rev s))), ''.'',
            rev (takeWhile (\<lambda>c. c \<noteq> CHR ''.'') (rev s)))
      else ([], [], s))"

subsection \<open>The path resolver\<close>

text \<open>\<^verbatim>\<open>getattr(module, klass.__name__, None) == klass\<close>\<close>

definition reexposes :: "world \<Rightarrow> oid \<Rightarrow> oid \<Rightarrow> bool" where
  "reexposes w module klass =
     (case getattr w module (dunder_name (heap w klass)) of
        None \<Rightarrow> False
      | Some x \<Rightarrow> py_eq w x klass)"

text \<open>Stripping the last dotted component shortens a path, unless nothing is left.\<close>

lemma rpartition_dot_shorter:
  assumes "fst (rpartition_dot s) \<noteq> []"
  shows "length (fst (rpartition_dot s)) < length s"
proof -
  have dot: "CHR ''.'' \<in> set s"
    using assms by (auto simp: rpartition_dot_def split: if_splits)
  then obtain a as where dw: "dropWhile (\<lambda>c. c \<noteq> CHR ''.'') (rev s) = a # as"
    by (cases "dropWhile (\<lambda>c. c \<noteq> CHR ''.'') (rev s)") auto
  have "length (dropWhile (\<lambda>c. c \<noteq> CHR ''.'') (rev s)) \<le> length (rev s)"
    by (rule length_dropWhile_le)
  then have "length as < length s" unfolding dw by simp
  then show ?thesis using dot dw by (simp add: rpartition_dot_def)
qed

text \<open>
  The loop of \<^verbatim>\<open>_get_best_import_path_for_class\<close>, with its two variables as arguments:
  \<^verbatim>\<open>while module_path := module_path.rpartition(".")[0]: ...\<close>
\<close>

function best_import_path_loop :: "world \<Rightarrow> oid \<Rightarrow> string \<Rightarrow> string \<Rightarrow> error + string" where
  "best_import_path_loop w klass module_path best_path =
     (let module_path' = fst (rpartition_dot module_path) in
      if module_path' = [] then Inr best_path
      else (case import_module w module_path' of
              Inl e \<Rightarrow> Inl e
            | Inr module \<Rightarrow>
                if reexposes w module klass
                then best_import_path_loop w klass module_path' module_path'
                else best_import_path_loop w klass module_path' best_path))"
  by pat_completeness auto
termination
  by (relation "measure (\<lambda>(w, klass, module_path, best_path). length module_path)")
    (auto dest: rpartition_dot_shorter)

definition get_best_import_path_for_class :: "world \<Rightarrow> oid \<Rightarrow> error + string" where
  "get_best_import_path_for_class w klass =
     best_import_path_loop w klass (dunder_module (heap w klass)) (dunder_module (heap w klass))"

text \<open>
  The paths the loop goes through: what is left of a dotted path after stripping its
  last component once, twice, and so on, as long as something is left.
\<close>

function dotted_prefixes :: "string \<Rightarrow> string list" where
  "dotted_prefixes module_path =
     (let module_path' = fst (rpartition_dot module_path) in
      if module_path' = [] then [] else module_path' # dotted_prefixes module_path')"
  by pat_completeness auto
termination
  by (relation "measure length") (auto dest: rpartition_dot_shorter)

text \<open>The test of the loop for the prefix \<open>q\<close>, once \<open>q\<close> is imported\<close>

definition passes :: "world \<Rightarrow> oid \<Rightarrow> string \<Rightarrow> bool" where
  "passes w klass q =
     (case import_module w q of Inl e \<Rightarrow> False | Inr module \<Rightarrow> reexposes w module klass)"

text \<open>
  Importing a path and looking up the simple name of the class there gives the class,
  the very object.
\<close>

definition round_trip :: "world \<Rightarrow> oid \<Rightarrow> string \<Rightarrow> bool" where
  "round_trip w klass q =
     (case import_module w q of
        Inl e \<Rightarrow> False
      | Inr module \<Rightarrow> getattr w module (dunder_name (heap w klass)) = Some klass)"

text \<open>
  Following the specification, not the source: the search that stops "once a prefix
  fails the check" and returns the last successful prefix so far.
\<close>

definition spec_best_import_path :: "world \<Rightarrow> oid \<Rightarrow> string" where
  "spec_best_import_path w klass =
     last (dunder_module (heap w klass)
           # takeWhile (passes w klass) (dotted_prefixes (dunder_module (heap w klass))))"

subsection \<open>Lazily evaluated values\<close>

text \<open>\<^verbatim>\<open>sep.join(xs)\<close> and the quoting \<^verbatim>\<open>f"'{s}'"\<close>\<close>

fun join :: "string \<Rightarrow> string list \<Rightarrow> string" where
  "join sep [] = []"
| "join sep [x] = x"
| "join sep (x # y # ys) = x @ sep @ join sep (y # ys)"

definition quoted :: "string \<Rightarrow> string" where
  "quoted s = [CHR 0x27] @ s @ [CHR 0x27]"

text \<open>The class attribute \<^verbatim>\<open>LazyAttribute.functions\<close>\<close>

definition LazyAttribute_functions :: "(string \<times> string) list" where
  "LazyAttribute_functions =
     [(''gettext'', ''gettext_lazy''),
      (''reverse'', ''reverse_lazy''),
      (''ugettext'', ''ugettext_lazy'')]"

record lazy_attribute =
  lazy_func :: string
  la_args :: "pyarg list"
  la_kwargs :: "(string \<times> pyarg) list"

text \<open>
  \<^verbatim>\<open>LazyAttribute.__init__\<close>, on the function name, the arguments and the keyword
  dictionary that \<^verbatim>\<open>promise.__reduce__()[1]\<close> holds.
\<close>

definition LazyAttribute_init ::
  "string \<Rightarrow> pyarg list \<Rightarrow> (string \<times> pyarg) list \<Rightarrow> error + lazy_attribute" where
  "LazyAttribute_init func_name args kwargs =
     (case map_of LazyAttribute_functions func_name of
        None \<Rightarrow>
          Inl (ImproperlyConfigured
                 ([CHR 0x27] @ func_name @ [CHR 0x27] @ '' not in known lazily called functions''))
      | Some lf \<Rightarrow> Inr \<lparr>lazy_func = lf, la_args = args, la_kwargs = kwargs\<rparr>)"

text \<open>
  An element of the list \<^verbatim>\<open>arguments\<close> built by \<^verbatim>\<open>__repr__\<close>: a string, or an
  argument appended as the object it is.
\<close>

datatype item = IStr string | IObj string

definition repr_arg :: "pyarg \<Rightarrow> item" where
  "repr_arg arg = (case arg of AStr s \<Rightarrow> IStr (quoted s) | AOther t \<Rightarrow> IObj t)"

text \<open>
  The second loop, \<^verbatim>\<open>for key, value in self.kwargs\<close>, iterates over a dictionary, that
  is over its keys, and unpacks each key into two variables: a key of two characters
  gives two one-character strings, any other key raises \<^verbatim>\<open>ValueError\<close>.
\<close>

fun repr_kwargs :: "(string \<times> pyarg) list \<Rightarrow> error + item list" where
  "repr_kwargs [] = Inr []"
| "repr_kwargs ((k, v) # rest) =
     (case k of
        [key, val] \<Rightarrow>
          (case repr_kwargs rest of
             Inl e \<Rightarrow> Inl e
           | Inr items \<Rightarrow> Inr (IStr (quoted [key] @ '': '' @ quoted [val]) # items))
      | _ \<Rightarrow> Inl ValueError)"

text \<open>\<^verbatim>\<open>", ".join(arguments)\<close> raises \<^verbatim>\<open>TypeError\<close> on an item that is not a string.\<close>

fun join_items :: "item list \<Rightarrow> error + string list" where
  "join_items [] = Inr []"
| "join_items (IObj t # rest) = Inl TypeError"
| "join_items (IStr s # rest) =
     (case join_items rest of Inl e \<Rightarrow> Inl e | Inr ss \<Rightarrow> Inr (s # ss))"

definition LazyAttribute_repr :: "lazy_attribute \<Rightarrow> error + string" where
  "LazyAttribute_repr self =
     (case repr_kwargs (la_kwargs self) of
        Inl e \<Rightarrow> Inl e
      | Inr kw_items \<Rightarrow>
          (case join_items (map repr_arg (la_args self) @ kw_items) of
             Inl e \<Rightarrow> Inl e
           | Inr ss \<Rightarrow> Inr (lazy_func self @ ''('' @ join '', '' ss @ '')'')))"

subsection \<open>Helpers of the member classifiers\<close>

text \<open>
  A member on its way through \<^verbatim>\<open>_handle_class_attribute\<close>: the object found, or the
  \<^verbatim>\<open>LazyAttribute\<close> that replaced it.
\<close>

datatype attr_member = Plain oid | Lazy lazy_attribute

definition BANNED_ATTR_NAMES :: "string list" where
  "BANNED_ATTR_NAMES =
     [''__all__'', ''__builtins__'', ''__class__'', ''__dict__'', ''__doc__'', ''__file__'',
      ''__module__'', ''__name__'', ''__package__'', ''__path__'', ''__spec__'',
      ''__weakref__'']"

definition full_path :: "world \<Rightarrow> oid \<Rightarrow> string" where
  "full_path w klass = dunder_module (heap w klass) @ ''.'' @ dunder_name (heap w klass)"

definition get_docstring :: "world \<Rightarrow> oid \<Rightarrow> string" where
  "get_docstring w member = (case getdoc (heap w member) of None \<Rightarrow> [] | Some d \<Rightarrow> d)"

text \<open>
  \<^verbatim>\<open>inspect.getsourcelines\<close> of a member; an instance of \<^verbatim>\<open>LazyAttribute\<close> is no module,
  class, method or function, for which the call raises \<^verbatim>\<open>TypeError\<close>.
\<close>

definition sourcelines_of :: "world \<Rightarrow> attr_member \<Rightarrow> error + (string list \<times> int)" where
  "sourcelines_of w member =
     (case member of Plain x \<Rightarrow> getsourcelines (heap w x) | Lazy la \<Rightarrow> Inl TypeError)"

definition get_line_number :: "world \<Rightarrow> attr_member \<Rightarrow> error + int" where
  "get_line_number w member =
     (case sourcelines_of w member of
        Inr (lines, start_line) \<Rightarrow> Inr start_line
      | Inl TypeError \<Rightarrow> Inr (- 1)
      | Inl e \<Rightarrow> Inl e)"

definition get_value :: "world \<Rightarrow> attr_member \<Rightarrow> error + string" where
  "get_value w member =
     (case member of
        Plain x \<Rightarrow>
          (case data (heap w x) of
             DStr s \<Rightarrow> Inr (quoted s)
           | _ \<Rightarrow> Inr (str_text (heap w x)))
      | Lazy la \<Rightarrow> LazyAttribute_repr la)"

text \<open>
  \<^verbatim>\<open>member in object.__dict__.values()\<close> compares with \<^verbatim>\<open>==\<close>; a freshly made
  \<^verbatim>\<open>LazyAttribute\<close> equals none of the values.
\<close>

definition in_object_dict_values :: "world \<Rightarrow> attr_member \<Rightarrow> bool" where
  "in_object_dict_values w member =
     (case member of
        Plain x \<Rightarrow> list_ex (\<lambda>v. py_eq w v x) (object_dict_values w)
      | Lazy la \<Rightarrow> False)"

definition ok_to_add_attribute :: "world \<Rightarrow> attr_member \<Rightarrow> string \<Rightarrow> oid \<Rightarrow> bool" where
  "ok_to_add_attribute w member member_name parent =
     (if isclass w parent \<and> in_object_dict_values w member then False
      else if member_name \<in> set BANNED_ATTR_NAMES then False
      else True)"

text \<open>\<^verbatim>\<open>inspect.getsourcefile(parent)\<close>, where \<open>parent\<close> may be \<^verbatim>\<open>None\<close>\<close>

definition getsourcefile_opt :: "world \<Rightarrow> oid option \<Rightarrow> error + string option" where
  "getsourcefile_opt w parent =
     (case parent of None \<Rightarrow> Inl TypeError | Some p \<Rightarrow> getsourcefile (heap w p))"

definition ok_to_add_method :: "world \<Rightarrow> oid \<Rightarrow> oid option \<Rightarrow> error + bool" where
  "ok_to_add_method w member parent =
     (case getsourcefile (heap w member) of
        Inl e \<Rightarrow> Inl e
      | Inr member_file \<Rightarrow>
     (case getsourcefile_opt w parent of
        Inl e \<Rightarrow> Inl e
      | Inr parent_file \<Rightarrow>
          if member_file \<noteq> parent_file then Inr False
          else (case parent of
                  None \<Rightarrow> Inr False
                | Some p \<Rightarrow>
                    if \<not> isclass w p then Inr False
                    else
     (case getsourcelines (heap w member) of
        Inl e \<Rightarrow> Inl e
      | Inr (lines, start_line) \<Rightarrow>
     (case getsourcelines (heap w p) of
        Inl e \<Rightarrow> Inl e
      | Inr (parent_lines, parent_start_line) \<Rightarrow>
          if start_line < parent_start_line
             \<or> start_line > parent_start_line + int (length parent_lines)
          then Inr False
          else Inr True)))))"

text \<open>
  \<^verbatim>\<open>inspect.formatargspec\<close> of the standard library: every argument with its annotation
  and default, \<^verbatim>\<open>*varargs\<close> (or a bare star before keyword-only arguments),
  \<^verbatim>\<open>**varkw\<close>, joined with commas inside parentheses, and the return annotation
  after them when there is one.
\<close>

definition formatargandannotation :: "argspec \<Rightarrow> string \<Rightarrow> string" where
  "formatargandannotation sp arg =
     (case map_of (as_annotations sp) arg of
        None \<Rightarrow> arg
      | Some ann \<Rightarrow> arg @ '': '' @ ann)"

definition format_positional :: "argspec \<Rightarrow> nat \<times> string \<Rightarrow> string" where
  "format_positional sp ia =
     (case ia of (i, arg) \<Rightarrow>
        if as_defaults sp \<noteq> [] \<and> length (as_args sp) \<le> i + length (as_defaults sp)
        then formatargandannotation sp arg @ ''='' @
             as_defaults sp ! (i + length (as_defaults sp) - length (as_args sp))
        else formatargandannotation sp arg)"

definition format_kwonly :: "argspec \<Rightarrow> string \<Rightarrow> string" where
  "format_kwonly sp kwonlyarg =
     (case map_of (as_kwonlydefaults sp) kwonlyarg of
        None \<Rightarrow> formatargandannotation sp kwonlyarg
      | Some v \<Rightarrow> formatargandannotation sp kwonlyarg @ ''='' @ v)"

definition argspec_specs :: "argspec \<Rightarrow> string list" where
  "argspec_specs sp =
     map (format_positional sp) (enumerate 0 (as_args sp))
     @ (case as_varargs sp of
          Some v \<Rightarrow> [''*'' @ formatargandannotation sp v]
        | None \<Rightarrow> (if as_kwonlyargs sp \<noteq> [] then [''*''] else []))
     @ map (format_kwonly sp) (as_kwonlyargs sp)
     @ (case as_varkw sp of
          Some v \<Rightarrow> [''**'' @ formatargandannotation sp v]
        | None \<Rightarrow> [])"

definition formatargspec :: "argspec \<Rightarrow> string" where
  "formatargspec sp =
     ''('' @ join '', '' (argspec_specs sp) @ '')''
     @ (case map_of (as_annotations sp) ''return'' of
          None \<Rightarrow> []
        | Some ann \<Rightarrow> '' -> '' @ ann)"

text \<open>\<^verbatim>\<open>line.lstrip()\<close> removes the leading white space.\<close>

definition is_space :: "char \<Rightarrow> bool" where
  "is_space c = (c \<in> {CHR 0x09, CHR 0x0A, CHR 0x0B, CHR 0x0C, CHR 0x0D,
                       CHR 0x1C, CHR 0x1D, CHR 0x1E, CHR 0x1F, CHR 0x20})"

definition lstrip :: "string \<Rightarrow> string" where
  "lstrip s = dropWhile is_space s"

definition get_code :: "world \<Rightarrow> oid \<Rightarrow> error + (string \<times> string \<times> int)" where
  "get_code w member =
     (case getsourcelines (heap w member) of
        Inl e \<Rightarrow> Inl e
      | Inr (lines, start_line) \<Rightarrow>
          (case lines of
             [] \<Rightarrow> Inl IndexError
           | line0 # _ \<Rightarrow>
               (let whitespace = length line0 - length (lstrip line0);
                    code = concat (map (drop whitespace) lines)
                in case getfullargspec (heap w member) of
                     Inl e \<Rightarrow> Inl e
                   | Inr sp \<Rightarrow> Inr (code, formatargspec sp, start_line))))"

text \<open>The slice \<^verbatim>\<open>arguments[1:-1]\<close> of a string\<close>

definition slice_1_minus_1 :: "string \<Rightarrow> string" where
  "slice_1_minus_1 s = drop 1 (take (length s - 1) s)"

text \<open>\<^verbatim>\<open>p in filename\<close> for two strings: \<open>p\<close> occurs in \<open>filename\<close>.\<close>

fun str_in :: "string \<Rightarrow> string \<Rightarrow> bool" where
  "str_in p [] = (p = [])"
| "str_in p (c # s) = (startswith (c # s) p \<or> str_in p s)"

text \<open>\<^verbatim>\<open>max(ps, key=len)\<close>: the first of the longest; \<^verbatim>\<open>ValueError\<close> on no element.\<close>

definition max_by_len :: "string list \<Rightarrow> error + string" where
  "max_by_len ps =
     (case ps of
        [] \<Rightarrow> Inl ValueError
      | p # rest \<Rightarrow> Inr (foldl (\<lambda>best q. if length best < length q then q else best) p rest))"

definition get_filename :: "world \<Rightarrow> oid \<Rightarrow> error + string" where
  "get_filename w member =
     (case getfile (heap w member) of
        Inl e \<Rightarrow> Inl e
      | Inr filename \<Rightarrow>
          (case max_by_len (filter (\<lambda>p. str_in p filename) (sys_path w)) of
             Inl e \<Rightarrow> Inl e
           | Inr sys_folder \<Rightarrow>
               (let filename = drop (length sys_folder) filename in
                if drop (length filename - 4) filename = ''.pyc''
                then Inr (take (length filename - 1) filename)
                else Inr filename)))"

subsection \<open>The records of the importer\<close>

text \<open>
  The dataclasses \<^verbatim>\<open>Module\<close>, \<^verbatim>\<open>Klass\<close>, \<^verbatim>\<open>Method\<close> and \<^verbatim>\<open>KlassAttribute\<close> of
  \<^verbatim>\<open>cbv.importer.dataclasses\<close>, with the fields the importer fills.
\<close>

datatype member =
    Module (mod_name: string) (mod_docstring: string) (mod_filename: string)
  | Klass (k_name: string) (k_module: string) (k_docstring: string) (k_line_number: int)
      (k_path: string) (k_bases: "string list") (k_best_import_path: string)
  | Method (m_name: string) (m_docstring: string) (m_code: string) (m_kwargs: string)
      (m_line_number: int) (m_klass_path: string)
  | KlassAttribute (a_name: string) (a_value: string) (a_line_number: int)
      (a_klass_path: string)

text \<open>
  What a generator does when it is consumed to its end: the records it yields, and then
  it is exhausted, or raises, or never comes back.
\<close>

datatype ending = Exhausted | Raised error | Hangs

type_synonym gen = "member list \<times> ending"

definition gen_empty :: gen where
  "gen_empty = ([], Exhausted)"

definition gen_raise :: "error \<Rightarrow> gen" where
  "gen_raise e = ([], Raised e)"

definition gen_yield :: "member \<Rightarrow> gen" where
  "gen_yield m = ([m], Exhausted)"

text \<open>One generator after another: the second runs only when the first is exhausted.\<close>

definition gen_then :: "gen \<Rightarrow> gen \<Rightarrow> gen" where
  "gen_then g h = (if snd g = Exhausted then (fst g @ fst h, snd h) else g)"

subsection \<open>The member classifiers\<close>

text \<open>
  The decoration loop of \<^verbatim>\<open>_handle_function_or_method\<close>:
  \<^verbatim>\<open>while getattr(member, "__wrapped__", None): member = member.__wrapped__\<close>.
  On a cyclic chain it never ends; then the value is \<open>None\<close>.
\<close>

partial_function (option) unwrap :: "world \<Rightarrow> oid \<Rightarrow> oid option" where
  "unwrap w member =
     (case dunder_wrapped (heap w member) of
        None \<Rightarrow> Some member
      | Some inner \<Rightarrow> unwrap w inner)"

declare unwrap.simps [code]

definition handle_function_or_method :: "world \<Rightarrow> oid \<Rightarrow> string \<Rightarrow> oid option \<Rightarrow> gen" where
  "handle_function_or_method w member member_name parent =
     (case unwrap w member of
        None \<Rightarrow> ([], Hangs)
      | Some member \<Rightarrow>
     (case ok_to_add_method w member parent of
        Inl e \<Rightarrow> gen_raise e
      | Inr False \<Rightarrow> gen_empty
      | Inr True \<Rightarrow>
     (case get_code w member of
        Inl e \<Rightarrow> gen_raise e
      | Inr (code, arguments, start_line) \<Rightarrow>
     (case parent of
        None \<Rightarrow> gen_raise TypeError
      | Some p \<Rightarrow>
          gen_yield (Method member_name (get_docstring w member) code
                       (slice_1_minus_1 arguments) start_line (full_path w p))))))"


definition handle_class_attribute :: "world \<Rightarrow> oid \<Rightarrow> string \<Rightarrow> oid \<Rightarrow> gen" where
  "handle_class_attribute w member member_name parent =
     (case (case data (heap w member) of
              DPromise func_name args kwargs \<Rightarrow>
                (case LazyAttribute_init func_name args kwargs of
                   Inl e \<Rightarrow> Inl e
                 | Inr la \<Rightarrow> Inr (Lazy la))
            | _ \<Rightarrow> Inr (Plain member)) of
        Inl e \<Rightarrow> gen_raise e
      | Inr member \<Rightarrow>
          if \<not> ok_to_add_attribute w member member_name parent then gen_empty
          else
     (case get_value w member of
        Inl e \<Rightarrow> gen_raise e
      | Inr v \<Rightarrow>
     (case get_line_number w member of
        Inl e \<Rightarrow> gen_raise e
      | Inr n \<Rightarrow> gen_yield (KlassAttribute member_name v n (full_path w parent)))))"

text \<open>The \<^verbatim>\<open>Klass\<close> record that \<^verbatim>\<open>_handle_class_on_module\<close> builds for a class\<close>

definition klass_record :: "world \<Rightarrow> oid \<Rightarrow> error + member" where
  "klass_record w member =
     (case get_line_number w (Plain member) of
        Inl e \<Rightarrow> Inl e
      | Inr n \<Rightarrow>
     (case get_best_import_path_for_class w member of
        Inl e \<Rightarrow> Inl e
      | Inr best \<Rightarrow>
          Inr (Klass (dunder_name (heap w member)) (dunder_module (heap w member))
                 (get_docstring w member) n (full_path w member)
                 (map (full_path w) (dunder_bases (heap w member))) best)))"

text \<open>
  The test that opens \<^verbatim>\<open>_handle_class_on_module\<close>: \<open>Inr True\<close> when the class goes on
  to be recorded, \<open>Inr False\<close> when the handler returns at once.
\<close>

definition class_on_module_ok :: "world \<Rightarrow> oid \<Rightarrow> oid \<Rightarrow> error + bool" where
  "class_on_module_ok w member parent =
     (if \<not> startswith (dunder_module (heap w member)) (dunder_name (heap w parent))
      then Inr False
      else
     (case getsourcefile (heap w member) of
        Inl e \<Rightarrow> Inl e
      | Inr member_file \<Rightarrow>
     (case getsourcefile (heap w parent) of
        Inl e \<Rightarrow> Inl e
      | Inr parent_file \<Rightarrow> Inr (member_file = parent_file))))"

subsection \<open>The object-graph walker\<close>

text \<open>
  The walker recurses through \<^verbatim>\<open>_process_member\<close>, the handlers of modules and
  classes, and \<^verbatim>\<open>_process_submembers\<close>.  It keeps no set of visited objects, so on
  modules that list each other it descends until the interpreter's recursion limit
  raises \<^verbatim>\<open>RecursionError\<close>; the limit is the first argument and is counted at
  \<^verbatim>\<open>_process_submembers\<close>.
\<close>

function (sequential) process_member :: "nat \<Rightarrow> world \<Rightarrow> oid \<Rightarrow> string \<Rightarrow> string \<Rightarrow> oid option \<Rightarrow> gen"
and handle_module :: "nat \<Rightarrow> world \<Rightarrow> oid \<Rightarrow> string \<Rightarrow> gen"
and handle_class_on_module :: "nat \<Rightarrow> world \<Rightarrow> oid \<Rightarrow> oid \<Rightarrow> string \<Rightarrow> gen"
and process_submembers :: "nat \<Rightarrow> world \<Rightarrow> oid \<Rightarrow> string \<Rightarrow> gen"
and for_submembers :: "nat \<Rightarrow> world \<Rightarrow> (string \<times> oid) list \<Rightarrow> oid \<Rightarrow> string \<Rightarrow> gen"
where
  "process_member limit w member member_name root_module_name parent =
     (if isbuiltin w member then gen_empty
      else if ismodule w member then handle_module limit w member root_module_name
      else if isclass w member \<and> (case parent of None \<Rightarrow> False | Some p \<Rightarrow> ismodule w p)
      then (case parent of
              None \<Rightarrow> gen_empty
            | Some p \<Rightarrow> handle_class_on_module limit w member p root_module_name)
      else if ismethod w member \<or> isfunction w member
      then handle_function_or_method w member member_name parent
      else if (case parent of None \<Rightarrow> False | Some p \<Rightarrow> isclass w p)
      then (case parent of
              None \<Rightarrow> gen_empty
            | Some p \<Rightarrow> handle_class_attribute w member member_name p)
      else gen_empty)"
| "handle_module limit w module root_module_name =
     (if \<not> startswith (dunder_name (heap w module)) root_module_name then gen_empty
      else (case get_filename w module of
              Inl e \<Rightarrow> gen_raise e
            | Inr filename \<Rightarrow>
                gen_then
                  (gen_yield (Module (dunder_name (heap w module)) (get_docstring w module) filename))
                  (process_submembers limit w module root_module_name)))"
| "handle_class_on_module limit w member parent root_module_name =
     (case class_on_module_ok w member parent of
        Inl e \<Rightarrow> gen_raise e
      | Inr False \<Rightarrow> gen_empty
      | Inr True \<Rightarrow>
          (case klass_record w member of
             Inl e \<Rightarrow> gen_raise e
           | Inr k \<Rightarrow>
               gen_then (gen_yield k) (process_submembers limit w member root_module_name)))"
| "process_submembers 0 w parent root_module_name = gen_raise RecursionError"
| "process_submembers (Suc limit) w parent root_module_name =
     for_submembers limit w (getmembers (heap w parent)) parent root_module_name"
| "for_submembers limit w [] parent root_module_name = gen_empty"
| "for_submembers limit w ((submember_name, submember_type) # rest) parent root_module_name =
     gen_then
       (process_member limit w submember_type submember_name root_module_name (Some parent))
       (for_submembers limit w rest parent root_module_name)"

  by pat_completeness auto
termination
  by (relation "inv_image (less_than <*lex*> less_than <*lex*> less_than)
       (\<lambda>x. case x of
          Inl (Inl (limit, w, member, member_name, root_module_name, parent)) \<Rightarrow> (limit, 2::nat, 0::nat)
        | Inl (Inr (limit, w, module, root_module_name)) \<Rightarrow> (limit, 1, 0)
        | Inr (Inl (limit, w, member, parent, root_module_name)) \<Rightarrow> (limit, 1, 0)
        | Inr (Inr (Inl (limit, w, parent, root_module_name))) \<Rightarrow> (limit, 0, 0)
        | Inr (Inr (Inr (limit, w, members, parent, root_module_name))) \<Rightarrow>
            (limit, 3, length members))") auto

text \<open>
  \<^verbatim>\<open>process_modules\<close>: the roots that import are collected first, those that raise
  \<^verbatim>\<open>ImportError\<close> are skipped, any other exception of the import goes to the caller;
  then every root is walked.
\<close>

fun import_roots :: "world \<Rightarrow> string list \<Rightarrow> error + oid list" where
  "import_roots w [] = Inr []"
| "import_roots w (module_path # rest) =
     (case import_module w module_path of
        Inl ImportError \<Rightarrow> import_roots w rest
      | Inl e \<Rightarrow> Inl e
      | Inr m \<Rightarrow> (case import_roots w rest of Inl e \<Rightarrow> Inl e | Inr ms \<Rightarrow> Inr (m # ms)))"

fun walk_roots :: "nat \<Rightarrow> world \<Rightarrow> oid list \<Rightarrow> gen" where
  "walk_roots limit w [] = gen_empty"
| "walk_roots limit w (m # ms) =
     gen_then
       (process_member limit w m (dunder_name (heap w m)) (dunder_name (heap w m)) None)
       (walk_roots limit w ms)"

definition process_modules :: "nat \<Rightarrow> world \<Rightarrow> string list \<Rightarrow> gen" where
  "process_modules limit w module_paths =
     (case import_roots w module_paths of
        Inl e \<Rightarrow> gen_raise e
      | Inr modules \<Rightarrow> walk_roots limit w modules)"

subsection \<open>Storage: inheritance and attribute resolution\<close>

text \<open>
  The rows of the models \<^verbatim>\<open>Module\<close>, \<^verbatim>\<open>Klass\<close>, \<^verbatim>\<open>Method\<close>, \<^verbatim>\<open>Inheritance\<close> and
  \<^verbatim>\<open>KlassAttribute\<close> of \<^verbatim>\<open>cbv.models\<close>, with the fields the importer sets.  A row of
  \<^verbatim>\<open>Module\<close> or \<^verbatim>\<open>Klass\<close> is referred to by its primary key, which is also what
  equality of two model instances compares.
\<close>

record module_row =
  mr_pk :: nat
  mr_name :: string
  mr_docstring :: string
  mr_filename :: string

record klass_row =
  kr_pk :: nat
  kr_module :: nat
  kr_name :: string
  kr_docstring :: string
  kr_line_number :: int
  kr_import_path :: string

record method_row =
  me_klass :: nat
  me_name :: string
  me_docstring :: string
  me_code :: string
  me_kwargs :: string
  me_line_number :: int

record inheritance_row =
  ih_parent :: nat
  ih_child :: nat
  ih_order :: nat

record attribute_row =
  at_klass :: nat
  at_line_number :: int
  at_name :: string
  at_value :: string

text \<open>The edges of the table \<^verbatim>\<open>Inheritance\<close>, from parent to child\<close>

definition inheritance_edges :: "inheritance_row list \<Rightarrow> (nat \<times> nat) set" where
  "inheritance_edges table = set (map (\<lambda>r. (ih_parent r, ih_child r)) table)"

text \<open>
  Modelled from the spec: \<^verbatim>\<open>Klass.get_all_children\<close> is a method of \<^verbatim>\<open>cbv/models.py\<close>,
  which is not among the sources.  The specification describes its result as the
  descendant classes of a class, "via transitive closure over the Inheritance edges, in
  the child direction".
\<close>

definition get_all_children :: "inheritance_row list \<Rightarrow> nat \<Rightarrow> nat set" where
  "get_all_children table klass = (inheritance_edges table)\<^sup>+ `` {klass}"

text \<open>\<^verbatim>\<open>create_inheritance\<close>: the rows handed to \<^verbatim>\<open>bulk_create\<close>\<close>

definition inheritance_of_klass ::
  "(string \<rightharpoonup> nat) \<Rightarrow> string \<Rightarrow> string list \<Rightarrow> error + inheritance_row list" where
  "inheritance_of_klass klass_lookup klass_data_path direct_ancestors =
     (case klass_lookup klass_data_path of
        None \<Rightarrow>
          if list_ex (\<lambda>ancestor. klass_lookup ancestor \<noteq> None) direct_ancestors
          then Inl (KeyError klass_data_path) else Inr []
      | Some c \<Rightarrow>
          Inr (concat (map (\<lambda>(i, ancestor).
                              case klass_lookup ancestor of
                                None \<Rightarrow> []
                              | Some p \<Rightarrow> [\<lparr>ih_parent = p, ih_child = c, ih_order = i\<rparr>])
                          (enumerate 0 direct_ancestors))))"

fun create_inheritance :: "member list \<Rightarrow> (string \<rightharpoonup> nat) \<Rightarrow> error + inheritance_row list" where
  "create_inheritance [] klass_lookup = Inr []"
| "create_inheritance (klass_data # rest) klass_lookup =
     (case inheritance_of_klass klass_lookup (k_path klass_data) (k_bases klass_data) of
        Inl e \<Rightarrow> Inl e
      | Inr rows \<Rightarrow>
          (case create_inheritance rest klass_lookup of
             Inl e \<Rightarrow> Inl e
           | Inr rows' \<Rightarrow> Inr (rows @ rows')))"

text \<open>
  \<^verbatim>\<open>create_attributes\<close>.  The first loop over a group collects the descendants of its
  classes; \<^verbatim>\<open>klass_lookup[klass_path]\<close> raises \<^verbatim>\<open>KeyError\<close> on an unknown path.
\<close>

fun group_descendants ::
  "inheritance_row list \<Rightarrow> (string \<rightharpoonup> nat) \<Rightarrow> (string \<times> int) list \<Rightarrow> error + nat set" where
  "group_descendants table klass_lookup [] = Inr {}"
| "group_descendants table klass_lookup ((klass_path, start_line) # rest) =
     (case klass_lookup klass_path of
        None \<Rightarrow> Inl (KeyError klass_path)
      | Some klass \<Rightarrow>
          (case group_descendants table klass_lookup rest of
             Inl e \<Rightarrow> Inl e
           | Inr descendants \<Rightarrow> Inr (get_all_children table klass \<union> descendants)))"

definition remaining_klasses ::
  "(string \<rightharpoonup> nat) \<Rightarrow> nat set \<Rightarrow> (string \<times> int) list \<Rightarrow> (string \<times> int) list" where
  "remaining_klasses klass_lookup descendants klasses =
     filter (\<lambda>k_and_l. case klass_lookup (fst k_and_l) of
                          None \<Rightarrow> False
                        | Some klass \<Rightarrow> klass \<notin> descendants) klasses"

definition attribute_models_of_group ::
  "inheritance_row list \<Rightarrow> (string \<rightharpoonup> nat) \<Rightarrow> (string \<times> string) \<times> (string \<times> int) list
     \<Rightarrow> error + attribute_row list" where
  "attribute_models_of_group table klass_lookup entry =
     (case entry of ((name, val), klasses) \<Rightarrow>
        (case group_descendants table klass_lookup klasses of
           Inl e \<Rightarrow> Inl e
         | Inr descendants \<Rightarrow>
             Inr (concat (map (\<lambda>(klass_path, line).
                                 case klass_lookup klass_path of
                                   None \<Rightarrow> []
                                 | Some klass \<Rightarrow>
                                     [\<lparr>at_klass = klass, at_line_number = line,
                                       at_name = name, at_value = val\<rparr>])
                             (remaining_klasses klass_lookup descendants klasses)))))"

fun create_attributes ::
  "inheritance_row list \<Rightarrow> ((string \<times> string) \<times> (string \<times> int) list) list
     \<Rightarrow> (string \<rightharpoonup> nat) \<Rightarrow> error + attribute_row list" where
  "create_attributes table [] klass_lookup = Inr []"
| "create_attributes table (entry # rest) klass_lookup =
     (case attribute_models_of_group table klass_lookup entry of
        Inl e \<Rightarrow> Inl e
      | Inr rows \<Rightarrow>
          (case create_attributes table rest klass_lookup of
             Inl e \<Rightarrow> Inl e
           | Inr rows' \<Rightarrow> Inr (rows @ rows')))"

subsection \<open>Storage: consuming the records\<close>

text \<open>
  The tables written by \<^verbatim>\<open>import_project_version\<close> and the local variables of its
  loop.  \<^verbatim>\<open>objects.create\<close> writes its row at once, the key of a new row being the
  number of rows its table has got in this run; \<^verbatim>\<open>bulk_create\<close> writes at the end.
  The dictionary \<^verbatim>\<open>attributes\<close> keeps its keys in the order of their first insertion.
\<close>

record storage =
  module_table :: "module_row list"
  klass_table :: "klass_row list"
  method_table :: "method_row list"
  inheritance_table :: "inheritance_row list"
  attribute_table :: "attribute_row list"
  klasses :: "member list"
  attributes :: "((string \<times> string) \<times> (string \<times> int) list) list"
  klass_models :: "string \<rightharpoonup> nat"
  module_models :: "string \<rightharpoonup> nat"
  method_models :: "method_row list"

definition empty_storage :: storage where
  "empty_storage =
     \<lparr>module_table = [], klass_table = [], method_table = [], inheritance_table = [],
      attribute_table = [], klasses = [], attributes = [], klass_models = Map.empty,
      module_models = Map.empty, method_models = []\<rparr>"

text \<open>\<^verbatim>\<open>attributes[key] += [entry]\<close> on a \<^verbatim>\<open>defaultdict(list)\<close>\<close>

fun attributes_add ::
  "((string \<times> string) \<times> (string \<times> int) list) list \<Rightarrow> string \<times> string \<Rightarrow> string \<times> int
     \<Rightarrow> ((string \<times> string) \<times> (string \<times> int) list) list" where
  "attributes_add [] key entry = [(key, [entry])]"
| "attributes_add ((k, es) # rest) key entry =
     (if k = key then (k, es @ [entry]) # rest else (k, es) # attributes_add rest key entry)"

text \<open>One turn of the loop \<^verbatim>\<open>for member in members\<close>\<close>

fun store_member :: "storage \<Rightarrow> member \<Rightarrow> error + storage" where
  "store_member st (Module name docstring filename) =
     (let pk = length (module_table st) in
      Inr (st\<lparr>module_table := module_table st @
                 [\<lparr>mr_pk = pk, mr_name = name, mr_docstring = docstring, mr_filename = filename\<rparr>],
              module_models := (module_models st)(name \<mapsto> pk)\<rparr>))"
| "store_member st (KlassAttribute name val line_number kpath) =
     Inr (st\<lparr>attributes := attributes_add (attributes st) (name, val) (kpath, line_number)\<rparr>)"
| "store_member st (Method name docstring code kwargs line_number kpath) =
     (case klass_models st kpath of
        None \<Rightarrow> Inl (KeyError kpath)
      | Some klass \<Rightarrow>
          Inr (st\<lparr>method_models := method_models st @
                     [\<lparr>me_klass = klass, me_name = name, me_docstring = docstring, me_code = code,
                       me_kwargs = kwargs, me_line_number = line_number\<rparr>]\<rparr>))"
| "store_member st (Klass name module docstring line_number path bases best_import_path) =
     (case module_models st module of
        None \<Rightarrow> Inl (KeyError module)
      | Some m \<Rightarrow>
          (let pk = length (klass_table st) in
           Inr (st\<lparr>klass_table := klass_table st @
                      [\<lparr>kr_pk = pk, kr_module = m, kr_name = name, kr_docstring = docstring,
                        kr_line_number = line_number, kr_import_path = best_import_path\<rparr>],
                   klass_models := (klass_models st)(path \<mapsto> pk),
                   klasses := klasses st @
                      [Klass name module docstring line_number path bases best_import_path]\<rparr>)))"

text \<open>
  The loop over the records a generator yields: an exception of the loop body ends it;
  after the last record the generator's own ending decides.
\<close>

fun store_members :: "storage \<Rightarrow> member list \<Rightarrow> ending \<Rightarrow> ending \<times> storage" where
  "store_members st [] fin = (fin, st)"
| "store_members st (member # rest) fin =
     (case store_member st member of
        Inl e \<Rightarrow> (Raised e, st)
      | Inr st' \<Rightarrow> store_members st' rest fin)"

text \<open>The three calls after the loop\<close>

definition finish_import :: "storage \<Rightarrow> ending \<times> storage" where
  "finish_import st =
     (let st1 = st\<lparr>method_table := method_models st\<rparr> in
      case create_inheritance (klasses st1) (klass_models st1) of
        Inl e \<Rightarrow> (Raised e, st1)
      | Inr rows \<Rightarrow>
          (let st2 = st1\<lparr>inheritance_table := rows\<rparr> in
           case create_attributes (inheritance_table st2) (attributes st2) (klass_models st2) of
             Inl e \<Rightarrow> (Raised e, st2)
           | Inr arows \<Rightarrow> (Exhausted, st2\<lparr>attribute_table := arows\<rparr>)))"

text \<open>
  \<^verbatim>\<open>import_project_version\<close>, on the records of one project version: how the call ends
  (\<open>Exhausted\<close> stands for its return) and what the tables hold then.
\<close>

definition import_project_version :: "gen \<Rightarrow> ending \<times> storage" where
  "import_project_version members =
     (case store_members empty_storage (fst members) (snd members) of
        (Exhausted, st) \<Rightarrow> finish_import st
      | (fin, st) \<Rightarrow> (fin, st))"

text \<open>\<^verbatim>\<open>Command.handle\<close>, on the keys of \<^verbatim>\<open>settings.CBV_SOURCES\<close>\<close>

definition handle :: "nat \<Rightarrow> world \<Rightarrow> string list \<Rightarrow> ending \<times> storage" where
  "handle limit w module_paths = import_project_version (process_modules limit w module_paths)"

subsection \<open>A proof device for the walker\<close>


subsection \<open>A small package to run the importer on\<close>

text \<open>
  The package \<^verbatim>\<open>shop\<close> with the module \<^verbatim>\<open>shop.views\<close>, which defines the class
  \<^verbatim>\<open>Base\<close> with the method \<^verbatim>\<open>get\<close> and the string attribute \<^verbatim>\<open>title\<close>, and the class
  \<^verbatim>\<open>Detail(Base)\<close>, which defines nothing of its own; \<^verbatim>\<open>inspect.getmembers\<close> lists
  \<^verbatim>\<open>get\<close> and \<^verbatim>\<open>title\<close> under both classes.  Object 0 is \<^verbatim>\<open>object\<close>.
\<close>

definition blank :: pyobj where
  "blank =
     \<lparr>data = DOther, dunder_name = [], dunder_module = [], dunder_bases = [],
      dunder_wrapped = None, str_text = [], getdoc = None, getfile = Inl TypeError,
      getsourcefile = Inl TypeError, getsourcelines = Inl TypeError,
      getfullargspec = Inl TypeError, getmembers = []\<rparr>"

definition views_py :: string where
  "views_py = ''/site/shop/views.py''"

definition shop_heap :: "oid \<Rightarrow> pyobj" where
  "shop_heap x =
     (if x = 0 then blank\<lparr>data := DClass, dunder_name := ''object'', dunder_module := ''builtins''\<rparr>
      else if x = 1 then
        blank\<lparr>data := DModule, dunder_name := ''shop'',
              getfile := Inr ''/site/shop/__init__.py'',
              getsourcefile := Inr (Some ''/site/shop/__init__.py''),
              getmembers := [(''views'', 2)]\<rparr>
      else if x = 2 then
        blank\<lparr>data := DModule, dunder_name := ''shop.views'', getdoc := Some ''Views of the shop.'',
              getfile := Inr views_py, getsourcefile := Inr (Some views_py),
              getmembers := [(''Base'', 3), (''Detail'', 4)]\<rparr>
      else if x = 3 then
        blank\<lparr>data := DClass, dunder_name := ''Base'', dunder_module := ''shop.views'',
              dunder_bases := [0], getdoc := Some ''The base view.'',
              getfile := Inr views_py, getsourcefile := Inr (Some views_py),
              getsourcelines :=
                Inr ([''class Base:'', ''    title = SHOP'', ''    def get(self, request, *args, **kwargs):'',
                      ''        return None''], 10),
              getmembers := [(''get'', 5), (''title'', 6)]\<rparr>
      else if x = 4 then
        blank\<lparr>data := DClass, dunder_name := ''Detail'', dunder_module := ''shop.views'',
              dunder_bases := [3],
              getfile := Inr views_py, getsourcefile := Inr (Some views_py),
              getsourcelines := Inr ([''class Detail(Base):'', ''    pass''], 20),
              getmembers := [(''get'', 5), (''title'', 6)]\<rparr>
      else if x = 5 then
        blank\<lparr>data := DFunction, dunder_name := ''get'', dunder_module := ''shop.views'',
              getfile := Inr views_py, getsourcefile := Inr (Some views_py),
              getsourcelines :=
                Inr ([''    def get(self, request, *args, **kwargs):'', ''        return None''], 12),
              getfullargspec :=
                Inr \<lparr>as_args = [''self'', ''request''], as_varargs = Some ''args'',
                     as_varkw = Some ''kwargs'', as_defaults = [], as_kwonlyargs = [],
                     as_kwonlydefaults = [], as_annotations = []\<rparr>\<rparr>
      else if x = 6 then blank\<lparr>data := DStr ''Shop''\<rparr>
      else blank)"

definition shop :: world where
  "shop =
     \<lparr>heap = shop_heap,
      import_module = (\<lambda>p. if p = ''shop'' then Inr 1 else if p = ''shop.views'' then Inr 2
                            else Inl ImportError),
      sys_path = [''/usr/lib/python'', ''/site''],
      object_dict_values = [7]\<rparr>"

subsection \<open>Properties of records\<close>



subsection \<open>Lazily evaluated values: the known functions\<close>

text \<open>
  The keys of \<^verbatim>\<open>LazyAttribute.functions\<close>, and the message of the exception for a name
  that is not among them.
\<close>

definition known_lazy_functions :: "string set" where
  "known_lazy_functions = {''gettext'', ''reverse'', ''ugettext''}"

definition unknown_message :: "string \<Rightarrow> string" where
  "unknown_message func_name = quoted func_name @ '' not in known lazily called functions''"

text \<open>
  The package \<^verbatim>\<open>shop\<close> once more, where \<^verbatim>\<open>Base\<close> also has the attribute
  \<^verbatim>\<open>label = pgettext_lazy("menu", "Shop")\<close>, a deferred call of \<^verbatim>\<open>pgettext\<close>, and
  \<^verbatim>\<open>Detail\<close> sets \<^verbatim>\<open>title = gettext_lazy("Shop")\<close> and
  \<^verbatim>\<open>success_url = reverse_lazy("detail", kwargs={"pk": 1})\<close>.
\<close>

definition shop_lazy :: world where
  "shop_lazy =
     shop\<lparr>heap := (\<lambda>x.
        if x = 3 then (shop_heap 3)\<lparr>getmembers := [(''get'', 5), (''label'', 8), (''title'', 6)]\<rparr>
        else if x = 4 then
          (shop_heap 4)\<lparr>getmembers :=
             [(''get'', 5), (''label'', 8), (''success_url'', 10), (''title'', 9)]\<rparr>
        else if x = 8 then blank\<lparr>data := DPromise ''pgettext'' [AStr ''menu'', AStr ''Shop''] []\<rparr>
        else if x = 9 then blank\<lparr>data := DPromise ''gettext'' [AStr ''Shop''] []\<rparr>
        else if x = 10 then
          blank\<lparr>data := DPromise ''reverse'' [AStr ''detail''] [(''kwargs'', AOther ''{pk: 1}'')]\<rparr>
        else shop_heap x)\<rparr>"



subsection \<open>The arguments of a method\<close>





text \<open>
  The package \<^verbatim>\<open>shop\<close> where the two lines of \<^verbatim>\<open>Detail\<close>, 20 and 21, are followed on
  line 22 by a function of the module, \<^verbatim>\<open>def extra(self)\<close>, which line 24 makes a
  member of the class: \<^verbatim>\<open>Detail.extra = extra\<close>.
\<close>

definition shop_extra :: world where
  "shop_extra =
     shop\<lparr>heap := (\<lambda>x.
        if x = 2 then
          (shop_heap 2)\<lparr>getmembers := [(''Base'', 3), (''Detail'', 4), (''extra'', 14)]\<rparr>
        else if x = 4 then
          (shop_heap 4)\<lparr>getmembers := [(''extra'', 14), (''get'', 5), (''title'', 6)]\<rparr>
        else if x = 14 then
          blank\<lparr>data := DFunction, dunder_name := ''extra'', dunder_module := ''shop.views'',
                getfile := Inr views_py, getsourcefile := Inr (Some views_py),
                getsourcelines := Inr ([''def extra(self):'', ''    return 1''], 22),
                getfullargspec :=
                  Inr \<lparr>as_args = [''self''], as_varargs = None, as_varkw = None,
                       as_defaults = [], as_kwonlyargs = [], as_kwonlydefaults = [],
                       as_annotations = []\<rparr>\<rparr>
        else shop_heap x)\<rparr>"

subsection \<open>Two more packages\<close>

text \<open>
  The package \<^verbatim>\<open>pkg\<close>: the class \<^verbatim>\<open>Field\<close> is defined in \<^verbatim>\<open>pkg.core.fields\<close>;
  \<^verbatim>\<open>pkg/__init__.py\<close> imports it (\<^verbatim>\<open>from pkg.core.fields import Field\<close>), while
  \<^verbatim>\<open>pkg/core/__init__.py\<close> does not.
\<close>

definition pkg :: world where
  "pkg =
     \<lparr>heap = (\<lambda>x.
        if x = 1 then
          blank\<lparr>data := DModule, dunder_name := ''pkg'',
                getfile := Inr ''/site/pkg/__init__.py'',
                getsourcefile := Inr (Some ''/site/pkg/__init__.py''),
                getmembers := [(''Field'', 3), (''core'', 2)]\<rparr>
        else if x = 2 then
          blank\<lparr>data := DModule, dunder_name := ''pkg.core'',
                getfile := Inr ''/site/pkg/core/__init__.py'',
                getsourcefile := Inr (Some ''/site/pkg/core/__init__.py''),
                getmembers := [(''fields'', 4)]\<rparr>
        else if x = 3 then
          blank\<lparr>data := DClass, dunder_name := ''Field'', dunder_module := ''pkg.core.fields'',
                getfile := Inr ''/site/pkg/core/fields.py'',
                getsourcefile := Inr (Some ''/site/pkg/core/fields.py''),
                getsourcelines := Inr ([''class Field:'', ''    pass''], 1)\<rparr>
        else if x = 4 then
          blank\<lparr>data := DModule, dunder_name := ''pkg.core.fields'',
                getfile := Inr ''/site/pkg/core/fields.py'',
                getsourcefile := Inr (Some ''/site/pkg/core/fields.py''),
                getmembers := [(''Field'', 3)]\<rparr>
        else blank),
      import_module = (\<lambda>p. if p = ''pkg'' then Inr 1 else if p = ''pkg.core'' then Inr 2
                            else if p = ''pkg.core.fields'' then Inr 4 else Inl ImportError),
      sys_path = [''/site''],
      object_dict_values = []\<rparr>"

text \<open>
  The package \<^verbatim>\<open>shop\<close> where \<^verbatim>\<open>shop.views\<close> has two more classes: \<^verbatim>\<open>Legacy\<close>, whose
  \<^verbatim>\<open>__module__\<close> is \<^verbatim>\<open>shop.legacy\<close>, a second name under which the same module is
  registered, and a class named \<^verbatim>\<open>BaseForm\<close> that the module binds as \<^verbatim>\<open>Form\<close> only.
\<close>

definition shop_alias :: world where
  "shop_alias =
     shop\<lparr>heap := (\<lambda>x.
        if x = 2 then
          (shop_heap 2)\<lparr>getmembers :=
             [(''Base'', 3), (''Detail'', 4), (''Form'', 16), (''Legacy'', 15)]\<rparr>
        else if x = 15 then
          blank\<lparr>data := DClass, dunder_name := ''Legacy'', dunder_module := ''shop.legacy'',
                dunder_bases := [0], getfile := Inr views_py, getsourcefile := Inr (Some views_py),
                getsourcelines := Inr ([''class Legacy:'', ''    pass''], 30)\<rparr>
        else if x = 16 then
          blank\<lparr>data := DClass, dunder_name := ''BaseForm'', dunder_module := ''shop.views'',
                dunder_bases := [0], getfile := Inr views_py, getsourcefile := Inr (Some views_py),
                getsourcelines := Inr ([''class BaseForm:'', ''    pass''], 40)\<rparr>
        else shop_heap x),
      import_module := (\<lambda>p. if p = ''shop'' then Inr 1
                             else if p = ''shop.views'' \<or> p = ''shop.legacy'' then Inr 2
                             else Inl ImportError)\<rparr>"

subsection \<open>Attribute shadowing\<close>

text \<open>
  The union of the descendants of every class that appears in a group of candidates.
\<close>

definition descendants_of_group ::
  "inheritance_row list \<Rightarrow> (string \<rightharpoonup> nat) \<Rightarrow> (string \<times> int) list \<Rightarrow> nat set" where
  "descendants_of_group table klass_lookup entries =
     (\<Union>(kpath, line) \<in> set entries.
        case klass_lookup kpath of None \<Rightarrow> {} | Some klass \<Rightarrow> get_all_children table klass)"

text \<open>
  The package \<^verbatim>\<open>shop\<close> where \<^verbatim>\<open>Base\<close> defines \<^verbatim>\<open>x = 1\<close>.  In \<open>shop_x\<close> the class
  \<^verbatim>\<open>Detail(Base)\<close> only inherits \<^verbatim>\<open>x\<close>; in \<open>shop_x2\<close> it sets \<^verbatim>\<open>x = 2\<close> itself.
\<close>

definition shop_x :: world where
  "shop_x =
     shop\<lparr>heap := (\<lambda>x.
        if x = 3 then (shop_heap 3)\<lparr>getmembers := [(''get'', 5), (''x'', 18)]\<rparr>
        else if x = 4 then (shop_heap 4)\<lparr>getmembers := [(''get'', 5), (''x'', 18)]\<rparr>
        else if x = 18 then blank\<lparr>str_text := ''1''\<rparr>
        else shop_heap x)\<rparr>"

definition shop_x2 :: world where
  "shop_x2 =
     shop\<lparr>heap := (\<lambda>x.
        if x = 3 then (shop_heap 3)\<lparr>getmembers := [(''get'', 5), (''x'', 18)]\<rparr>
        else if x = 4 then (shop_heap 4)\<lparr>getmembers := [(''get'', 5), (''x'', 19)]\<rparr>
        else if x = 18 then blank\<lparr>str_text := ''1''\<rparr>
        else if x = 19 then blank\<lparr>str_text := ''2''\<rparr>
        else shop_heap x)\<rparr>"

text \<open>
  What the storage holds for \<open>shop_x\<close> when \<^verbatim>\<open>create_attributes\<close> is called: the
  inheritance of \<^verbatim>\<open>Detail\<close> (key 1) from \<^verbatim>\<open>Base\<close> (key 0), the classes by path, and the
  one group of candidates.
\<close>

definition x_table :: "inheritance_row list" where
  "x_table = [\<lparr>ih_parent = 0, ih_child = 1, ih_order = 0\<rparr>]"

definition x_lookup :: "string \<rightharpoonup> nat" where
  "x_lookup = [''shop.views.Base'' \<mapsto> 0, ''shop.views.Detail'' \<mapsto> 1]"

definition x_attributes :: "((string \<times> string) \<times> (string \<times> int) list) list" where
  "x_attributes = [((''x'', ''1''), [(''shop.views.Base'', - 1), (''shop.views.Detail'', - 1)])]"

definition x_row :: "nat \<Rightarrow> string \<Rightarrow> attribute_row" where
  "x_row klass val = \<lparr>at_klass = klass, at_line_number = - 1, at_name = ''x'', at_value = val\<rparr>"

section \<open>Properties\<close>

subsection \<open>Every record of a walk comes from a classifier\<close>

declare process_member.simps [simp del] handle_module.simps [simp del]
  handle_class_on_module.simps [simp del]


lemma in_gen_empty [simp]: "r \<notin> set (fst gen_empty)"
  by (simp add: gen_empty_def)

lemma in_gen_raise [simp]: "r \<notin> set (fst (gen_raise e))"
  by (simp add: gen_raise_def)

lemma in_gen_yield [simp]: "r \<in> set (fst (gen_yield m)) \<longleftrightarrow> r = m"
  by (auto simp: gen_yield_def)








subsection \<open>What the classifiers yield\<close>







subsection \<open>The package \<open>shop\<close>\<close>


subsection \<open>Line numbers\<close>



subsection \<open>Endings of generators\<close>

lemma LazyAttribute_init_known:
  "func_name \<in> known_lazy_functions \<Longrightarrow>
     LazyAttribute_init func_name args kwargs =
       Inr \<lparr>lazy_func = func_name @ ''_lazy'', la_args = args, la_kwargs = kwargs\<rparr>"
  by (auto simp: known_lazy_functions_def LazyAttribute_init_def LazyAttribute_functions_def)

lemma LazyAttribute_init_unknown:
  "func_name \<notin> known_lazy_functions \<Longrightarrow>
     LazyAttribute_init func_name args kwargs = Inl (ImproperlyConfigured (unknown_message func_name))"
  by (auto simp: known_lazy_functions_def LazyAttribute_init_def LazyAttribute_functions_def
      unknown_message_def quoted_def)

lemma snd_gen_then:
  "snd (gen_then g h) = (if snd g = Exhausted then snd h else snd g)"
  by (simp add: gen_then_def)

lemma fst_gen_then:
  "fst (gen_then g h) = (if snd g = Exhausted then fst g @ fst h else fst g)"
  by (simp add: gen_then_def)

lemma for_submembers_append:
  "for_submembers limit w (pre @ post) parent root =
     gen_then (for_submembers limit w pre parent root) (for_submembers limit w post parent root)"
  by (induction pre) (auto simp: gen_then_def gen_empty_def split: if_splits)

lemma store_members_bulk_tables:
  "store_members st members fin = (fin', st') \<Longrightarrow>
     method_table st' = method_table st \<and> inheritance_table st' = inheritance_table st
     \<and> attribute_table st' = attribute_table st"
proof (induction members arbitrary: st)
  case Nil
  then show ?case by simp
next
  case (Cons m members)
  show ?case
  proof (cases "store_member st m")
    case (Inl e)
    then show ?thesis using Cons.prems by simp
  next
    case (Inr st1)
    then have "method_table st1 = method_table st \<and> inheritance_table st1 = inheritance_table st
       \<and> attribute_table st1 = attribute_table st"
      by (cases m) (auto simp: Let_def split: option.splits)
    then show ?thesis using Cons.IH [of st1] Cons.prems Inr by simp
  qed
qed

lemma store_members_ending:
  "store_members st members fin = (fin', st') \<Longrightarrow> fin' = fin \<or> (\<exists>k. fin' = Raised (KeyError k))"
proof (induction members arbitrary: st)
  case Nil
  then show ?case by simp
next
  case (Cons m members)
  show ?case
  proof (cases "store_member st m")
    case (Inl e)
    then have "\<exists>k. e = KeyError k"
      by (cases m) (auto simp: Let_def split: option.splits)
    then show ?thesis using Cons.prems Inl by auto
  next
    case (Inr st1)
    then show ?thesis using Cons.IH [of st1] Cons.prems by simp
  qed
qed

lemma walk_roots_append:
  "walk_roots limit w (pre @ post) = gen_then (walk_roots limit w pre) (walk_roots limit w post)"
  by (induction pre) (auto simp: gen_then_def gen_empty_def split: if_splits)

lemma import_project_version_raised:
  assumes "snd members = Raised e"
  shows "\<exists>e' st. import_project_version members = (Raised e', st)
          \<and> (e' = e \<or> (\<exists>k. e' = KeyError k))
          \<and> method_table st = [] \<and> inheritance_table st = [] \<and> attribute_table st = []"
proof -
  obtain fin st where sm: "store_members empty_storage (fst members) (snd members) = (fin, st)"
    by (cases "store_members empty_storage (fst members) (snd members)")
  from store_members_ending [OF sm] assms
  have fin: "fin = Raised e \<or> (\<exists>k. fin = Raised (KeyError k))" by simp
  from store_members_bulk_tables [OF sm]
  have tabs: "method_table st = [] \<and> inheritance_table st = [] \<and> attribute_table st = []"
    by (simp add: empty_storage_def)
  from fin have "import_project_version members = (fin, st)"
    by (auto simp: import_project_version_def sm)
  then show ?thesis using fin tabs by auto
qed

subsection \<open>A deferred call of an unknown function\<close>

text \<open>
  Claim C8.  \<^verbatim>\<open>LazyAttribute.__init__\<close> raises \<^verbatim>\<open>ImproperlyConfigured\<close> exactly for a
  wrapped function whose name is not \<^verbatim>\<open>gettext\<close>, \<^verbatim>\<open>reverse\<close> or \<^verbatim>\<open>ugettext\<close>.  For
  such a value met as a member of a class the exception leaves \<^verbatim>\<open>_process_member\<close>,
  and no enclosing generator catches it: it ends the walk of the class's members once
  the members before it are done, the walk of the class, of the module and of the roots,
  and finally \<^verbatim>\<open>Command.handle\<close>, which raises without having written methods,
  inheritance or attributes (the only other exception it can raise instead is a
  \<^verbatim>\<open>KeyError\<close> of the storage loop on an earlier record).
\<close>

theorem unknown_lazy_function_is_fatal:
  "LazyAttribute_init func_name args kwargs =
     (if func_name \<in> known_lazy_functions
      then Inr \<lparr>lazy_func = func_name @ ''_lazy'', la_args = args, la_kwargs = kwargs\<rparr>
      else Inl (ImproperlyConfigured (unknown_message func_name)))
   \<and> (data (heap w member) = DPromise func_name args kwargs
        \<and> func_name \<notin> known_lazy_functions \<and> isclass w parent \<longrightarrow>
      process_member limit w member member_name root (Some parent)
        = gen_raise (ImproperlyConfigured (unknown_message func_name)))
   \<and> (getmembers (heap w parent) = pre @ (member_name, member) # post
        \<and> snd (for_submembers limit w pre parent root) = Exhausted
        \<and> snd (process_member limit w member member_name root (Some parent)) = Raised e \<longrightarrow>
      snd (process_submembers (Suc limit) w parent root) = Raised e)
   \<and> (isclass w parent \<and> ismodule w module \<and> class_on_module_ok w parent module = Inr True
        \<and> klass_record w parent = Inr k \<longrightarrow>
      snd (process_member limit_k w parent parent_name root (Some module))
        = snd (process_submembers limit_k w parent root))
   \<and> (ismodule w module \<and> startswith (dunder_name (heap w module)) root
        \<and> get_filename w module = Inr filename \<longrightarrow>
      snd (process_member limit_m w module module_name root container)
        = snd (process_submembers limit_m w module root))
   \<and> (import_roots w module_paths = Inr (roots @ m # roots')
        \<and> snd (walk_roots limit_r w roots) = Exhausted
        \<and> snd (process_member limit_r w m (dunder_name (heap w m)) (dunder_name (heap w m)) None)
            = Raised e \<longrightarrow>
      snd (process_modules limit_r w module_paths) = Raised e)
   \<and> (snd (process_modules limit_r w module_paths) = Raised e \<longrightarrow>
      (\<exists>e' st. handle limit_r w module_paths = (Raised e', st)
          \<and> (e' = e \<or> (\<exists>k. e' = KeyError k))
          \<and> method_table st = [] \<and> inheritance_table st = [] \<and> attribute_table st = []))"
proof -
  have c1: "LazyAttribute_init func_name args kwargs =
     (if func_name \<in> known_lazy_functions
      then Inr \<lparr>lazy_func = func_name @ ''_lazy'', la_args = args, la_kwargs = kwargs\<rparr>
      else Inl (ImproperlyConfigured (unknown_message func_name)))"
    using LazyAttribute_init_known [of func_name args kwargs]
      LazyAttribute_init_unknown [of func_name args kwargs] by simp
  have c3: "process_member limit w member member_name root (Some parent)
        = gen_raise (ImproperlyConfigured (unknown_message func_name))"
    if "data (heap w member) = DPromise func_name args kwargs"
      "func_name \<notin> known_lazy_functions" "isclass w parent"
    using that LazyAttribute_init_unknown [of func_name args kwargs]
    by (simp add: process_member.simps isbuiltin_def ismodule_def isclass_def ismethod_def
        isfunction_def handle_class_attribute_def)
  have c4: "snd (process_submembers (Suc limit) w parent root) = Raised e"
    if "getmembers (heap w parent) = pre @ (member_name, member) # post"
      "snd (for_submembers limit w pre parent root) = Exhausted"
      "snd (process_member limit w member member_name root (Some parent)) = Raised e"
    using that by (simp add: for_submembers_append snd_gen_then)
  have c5: "snd (process_member limit_k w parent parent_name root (Some module))
        = snd (process_submembers limit_k w parent root)"
    if "isclass w parent" "ismodule w module" "class_on_module_ok w parent module = Inr True"
      "klass_record w parent = Inr k"
    using that
    by (simp add: process_member.simps handle_class_on_module.simps isbuiltin_def ismodule_def
        isclass_def snd_gen_then gen_yield_def)
  have c6: "snd (process_member limit_m w module module_name root container)
        = snd (process_submembers limit_m w module root)"
    if "ismodule w module" "startswith (dunder_name (heap w module)) root"
      "get_filename w module = Inr filename"
    using that
    by (simp add: process_member.simps handle_module.simps isbuiltin_def ismodule_def
        snd_gen_then gen_yield_def)
  have c7: "snd (process_modules limit_r w module_paths) = Raised e"
    if "import_roots w module_paths = Inr (roots @ m # roots')"
      "snd (walk_roots limit_r w roots) = Exhausted"
      "snd (process_member limit_r w m (dunder_name (heap w m)) (dunder_name (heap w m)) None)
            = Raised e"
    using that by (simp add: process_modules_def walk_roots_append snd_gen_then)
  have c8: "\<exists>e' st. handle limit_r w module_paths = (Raised e', st)
          \<and> (e' = e \<or> (\<exists>k. e' = KeyError k))
          \<and> method_table st = [] \<and> inheritance_table st = [] \<and> attribute_table st = []"
    if "snd (process_modules limit_r w module_paths) = Raised e"
    using import_project_version_raised [OF that] by (simp add: handle_def)
  show ?thesis
    using c1 c3 c4 c5 c6 c7 c8 by (intro conjI impI) blast+
qed

lemma shop_lazy_handle:
  "fst (handle 3 shop_lazy [''shop'']) = Raised (ImproperlyConfigured (unknown_message ''pgettext''))
   \<and> map mr_name (module_table (snd (handle 3 shop_lazy [''shop'']))) = [''shop'', ''shop.views'']
   \<and> map kr_name (klass_table (snd (handle 3 shop_lazy [''shop'']))) = [''Base'']"
  by code_simp

theorem unknown_lazy_function_is_fatal_witness:
  "''pgettext'' \<notin> known_lazy_functions
   \<and> data (heap shop_lazy 8) = DPromise ''pgettext'' [AStr ''menu'', AStr ''Shop''] []
   \<and> isclass shop_lazy 3
   \<and> process_member 0 shop_lazy 8 ''label'' ''shop'' (Some 3)
       = gen_raise (ImproperlyConfigured (unknown_message ''pgettext''))
   \<and> snd (process_submembers (Suc 0) shop_lazy 3 ''shop'')
       = Raised (ImproperlyConfigured (unknown_message ''pgettext''))
   \<and> snd (process_member 1 shop_lazy 3 ''Base'' ''shop'' (Some 2))
       = snd (process_submembers 1 shop_lazy 3 ''shop'')
   \<and> snd (process_member 2 shop_lazy 2 ''views'' ''shop'' (Some 1))
       = snd (process_submembers 2 shop_lazy 2 ''shop'')
   \<and> snd (process_modules 3 shop_lazy [''shop''])
       = Raised (ImproperlyConfigured (unknown_message ''pgettext''))
   \<and> (\<exists>e' st. handle 3 shop_lazy [''shop''] = (Raised e', st)
          \<and> (e' = ImproperlyConfigured (unknown_message ''pgettext'') \<or> (\<exists>k. e' = KeyError k))
          \<and> method_table st = [] \<and> inheritance_table st = [] \<and> attribute_table st = [])
   \<and> fst (handle 3 shop_lazy [''shop''])
       = Raised (ImproperlyConfigured (unknown_message ''pgettext''))"
proof -
  let ?e = "ImproperlyConfigured (unknown_message ''pgettext'')"
  have h1: "''pgettext'' \<notin> known_lazy_functions" by code_simp
  have h2: "data (heap shop_lazy 8) = DPromise ''pgettext'' [AStr ''menu'', AStr ''Shop''] []"
    by code_simp
  have h3: "isclass shop_lazy 3" by code_simp
  have h4: "getmembers (heap shop_lazy 3) = [(''get'', 5)] @ (''label'', 8) # [(''title'', 6)]"
    by code_simp
  have h5: "snd (for_submembers 0 shop_lazy [(''get'', 5)] 3 ''shop'') = Exhausted" by code_simp
  have h6: "ismodule shop_lazy 2" by code_simp
  have h7: "class_on_module_ok shop_lazy 3 2 = Inr True" by code_simp
  have h8: "klass_record shop_lazy 3 = Inr (Klass ''Base'' ''shop.views'' ''The base view.'' 10
      ''shop.views.Base'' [''builtins.object''] ''shop.views'')" by code_simp
  have h9: "startswith (dunder_name (heap shop_lazy 2)) ''shop''" by code_simp
  have h10: "get_filename shop_lazy 2 = Inr ''/shop/views.py''" by code_simp
  have h11: "import_roots shop_lazy [''shop''] = Inr ([] @ 1 # [])" by code_simp
  have h12: "snd (walk_roots 3 shop_lazy []) = Exhausted" by code_simp
  have h13: "snd (process_member 3 shop_lazy 1 (dunder_name (heap shop_lazy 1))
      (dunder_name (heap shop_lazy 1)) None) = Raised ?e" by code_simp
  have h14: "fst (handle 3 shop_lazy [''shop'']) = Raised ?e" by code_simp
  have h15: "snd (process_member 0 shop_lazy 8 ''label'' ''shop'' (Some 3)) = Raised ?e"
    by code_simp
  note inst = unknown_lazy_function_is_fatal [of "''pgettext''" "[AStr ''menu'', AStr ''Shop'']" "[]"
      shop_lazy 8 3 0 "''label''" "''shop''" "[(''get'', 5)]" "[(''title'', 6)]"
      "ImproperlyConfigured (unknown_message ''pgettext'')" 2
      "Klass ''Base'' ''shop.views'' ''The base view.'' 10
         ''shop.views.Base'' [''builtins.object''] ''shop.views''"
      1 "''Base''" "''/shop/views.py''" 2 "''views''" "Some 1" "[''shop'']" "[]" 1 "[]" 3]
  show ?thesis
    using inst h1 h2 h3 h4 h5 h6 h7 h8 h9 h10 h11 h12 h13 h14 h15
    by blast
qed

subsection \<open>The text of a lazily evaluated value\<close>

lemma repr_args_strings: "join_items (map repr_arg (map AStr ss)) = Inr (map quoted ss)"
  by (induction ss) (auto simp: repr_arg_def)

text \<open>
  Claim C6, in the form that holds of the code.
  For a deferred call of a known function with string positional
  arguments and no keyword arguments, \<^verbatim>\<open>LazyAttribute\<close> renders the lazy function's name
  applied to the quoted arguments, \<^verbatim>\<open>gettext_lazy('Shop')\<close> for a call of \<^verbatim>\<open>gettext\<close>
  and \<^verbatim>\<open>reverse_lazy('detail', 'shop')\<close> for one of \<^verbatim>\<open>reverse\<close>, and that text is the
  value of the attribute record.
\<close>

theorem lazy_value_format:
  "func_name \<in> known_lazy_functions \<longrightarrow>
     LazyAttribute_init func_name (map AStr ss) []
       = Inr \<lparr>lazy_func = func_name @ ''_lazy'', la_args = map AStr ss, la_kwargs = []\<rparr>
     \<and> LazyAttribute_repr \<lparr>lazy_func = func_name @ ''_lazy'', la_args = map AStr ss, la_kwargs = []\<rparr>
       = Inr (func_name @ ''_lazy'' @ ''('' @ join '', '' (map quoted ss) @ '')'')
     \<and> (data (heap w member) = DPromise func_name (map AStr ss) []
          \<and> member_name \<notin> set BANNED_ATTR_NAMES \<longrightarrow>
        handle_class_attribute w member member_name parent
          = gen_yield (KlassAttribute member_name
               (func_name @ ''_lazy'' @ ''('' @ join '', '' (map quoted ss) @ '')'') (- 1)
               (full_path w parent)))"
proof (intro impI conjI)
  assume k: "func_name \<in> known_lazy_functions"
  let ?la = "\<lparr>lazy_func = func_name @ ''_lazy'', la_args = map AStr ss, la_kwargs = []\<rparr>"
  show i: "LazyAttribute_init func_name (map AStr ss) [] = Inr ?la"
    by (rule LazyAttribute_init_known [OF k])
  show r: "LazyAttribute_repr ?la
       = Inr (func_name @ ''_lazy'' @ ''('' @ join '', '' (map quoted ss) @ '')'')"
    by (simp add: LazyAttribute_repr_def repr_args_strings del: map_map)
  assume "data (heap w member) = DPromise func_name (map AStr ss) []
          \<and> member_name \<notin> set BANNED_ATTR_NAMES"
  then show "handle_class_attribute w member member_name parent
          = gen_yield (KlassAttribute member_name
               (func_name @ ''_lazy'' @ ''('' @ join '', '' (map quoted ss) @ '')'') (- 1)
               (full_path w parent))"
    using i r
    by (simp add: handle_class_attribute_def ok_to_add_attribute_def in_object_dict_values_def
        get_value_def get_line_number_def sourcelines_of_def)
qed

theorem lazy_value_format_witness:
  "''gettext'' \<in> known_lazy_functions
   \<and> data (heap shop_lazy 9) = DPromise ''gettext'' (map AStr [''Shop'']) []
   \<and> ''title'' \<notin> set BANNED_ATTR_NAMES
   \<and> handle_class_attribute shop_lazy 9 ''title'' 4
       = gen_yield (KlassAttribute ''title'' (''gettext_lazy('' @ quoted ''Shop'' @ '')'') (- 1)
           ''shop.views.Detail'')
   \<and> LazyAttribute_repr \<lparr>lazy_func = ''gettext_lazy'', la_args = [AStr ''Shop''], la_kwargs = []\<rparr>
       = Inr (''gettext_lazy('' @ quoted ''Shop'' @ '')'')
   \<and> ''reverse'' \<in> known_lazy_functions
   \<and> LazyAttribute_repr
        \<lparr>lazy_func = ''reverse_lazy'', la_args = [AStr ''detail'', AStr ''shop''], la_kwargs = []\<rparr>
       = Inr (''reverse_lazy('' @ quoted ''detail'' @ '', '' @ quoted ''shop'' @ '')'')"
proof -
  have g: "''gettext'' \<in> known_lazy_functions" and r: "''reverse'' \<in> known_lazy_functions"
    by (simp_all add: known_lazy_functions_def)
  have d: "data (heap shop_lazy 9) = DPromise ''gettext'' (map AStr [''Shop'']) []"
    and b: "''title'' \<notin> set BANNED_ATTR_NAMES"
    and p: "full_path shop_lazy 4 = ''shop.views.Detail''"
    by code_simp+
  from lazy_value_format [of "''gettext''" "[''Shop'']" shop_lazy 9 "''title''" 4] g d b p
    lazy_value_format [of "''reverse''" "[''detail'', ''shop'']"] r
  show ?thesis by simp
qed

text \<open>
  The claim as stated also promises \<^verbatim>\<open>kwarg='value'\<close> for keyword arguments.  The loop
  \<^verbatim>\<open>for key, value in self.kwargs\<close> runs over the keys of the dictionary: for
  \<^verbatim>\<open>reverse_lazy("detail", kwargs={"pk": 1})\<close> unpacking the key \<^verbatim>\<open>"kwargs"\<close> raises
  \<^verbatim>\<open>ValueError\<close>, and a key of two characters such as \<^verbatim>\<open>pk\<close> is rendered \<^verbatim>\<open>'p': 'k'\<close>.
\<close>

theorem lazy_value_format_counterexample:
  "handle_class_attribute shop_lazy 10 ''success_url'' 4 = gen_raise ValueError
   \<and> LazyAttribute_init ''reverse'' [AStr ''detail''] [(''kwargs'', AOther ''{pk: 1}'')]
     = Inr \<lparr>lazy_func = ''reverse_lazy'', la_args = [AStr ''detail''],
            la_kwargs = [(''kwargs'', AOther ''{pk: 1}'')]\<rparr>
   \<and> LazyAttribute_repr \<lparr>lazy_func = ''reverse_lazy'', la_args = [AStr ''detail''],
            la_kwargs = [(''kwargs'', AOther ''{pk: 1}'')]\<rparr> = Inl ValueError
   \<and> LazyAttribute_repr \<lparr>lazy_func = ''reverse_lazy'', la_args = [AStr ''detail''],
            la_kwargs = [(''pk'', AStr ''1'')]\<rparr>
       = Inr (''reverse_lazy('' @ quoted ''detail'' @ '', '' @ quoted ''p'' @ '': '' @ quoted ''k'' @ '')'')
   \<and> ''reverse_lazy('' @ quoted ''detail'' @ '', '' @ quoted ''p'' @ '': '' @ quoted ''k'' @ '')''
       \<noteq> ''reverse_lazy('' @ quoted ''detail'' @ '', pk='' @ quoted ''1'' @ '')''"
  by code_simp

subsection \<open>Which members become attribute candidates\<close>






subsection \<open>The arguments recorded for a method\<close>










subsection \<open>Which class owns a method\<close>

lemma ok_to_add_method_range:
  "ok_to_add_method w member (Some parent) = Inr True \<longleftrightarrow>
     (\<exists>f lines s plines ps.
        getsourcefile (heap w member) = Inr f \<and> getsourcefile (heap w parent) = Inr f
        \<and> isclass w parent
        \<and> getsourcelines (heap w member) = Inr (lines, s)
        \<and> getsourcelines (heap w parent) = Inr (plines, ps)
        \<and> ps \<le> s \<and> s \<le> ps + int (length plines))"
  by (auto simp: ok_to_add_method_def getsourcefile_opt_def split: sum.splits if_splits)

text \<open>
  Claim C4.  \<^verbatim>\<open>ok_to_add_method\<close> is meant to accept a callable for a class when it
  starts inside the lines of the class, \<open>start\<close> up to \<open>start + count - 1\<close>.  Its test
  \<^verbatim>\<open>start_line > parent_start_line + len(parent_lines)\<close> still accepts the line
  \<open>start + count\<close>, the first line after the class: \<^verbatim>\<open>extra\<close>, defined on line 22
  after the class \<^verbatim>\<open>Detail\<close> of lines 20 and 21, is recorded as a method of
  \<^verbatim>\<open>Detail\<close>.
\<close>

theorem method_ownership_off_by_one:
  "getsourcefile (heap shop_extra 14) = getsourcefile (heap shop_extra 4)
   \<and> isclass shop_extra 4
   \<and> getsourcelines (heap shop_extra 4) = Inr ([''class Detail(Base):'', ''    pass''], 20)
   \<and> getsourcelines (heap shop_extra 14) = Inr ([''def extra(self):'', ''    return 1''], 22)
   \<and> \<not> (22 < 20 + int (length [''class Detail(Base):'', ''    pass'']))
   \<and> ok_to_add_method shop_extra 14 (Some 4) = Inr True
   \<and> fst (handle_function_or_method shop_extra 14 ''extra'' (Some 4))
       = [Method ''extra'' [] ''def extra(self):    return 1'' ''self'' 22 ''shop.views.Detail'']"
  by code_simp

subsection \<open>The path resolver\<close>

declare best_import_path_loop.simps [simp del] dotted_prefixes.simps [simp del]

lemma best_import_path_loop_filter:
  assumes "\<forall>q \<in> set (dotted_prefixes p). \<exists>m. import_module w q = Inr m"
  shows "best_import_path_loop w klass p best
           = Inr (last (best # filter (passes w klass) (dotted_prefixes p)))"
  using assms
proof (induction w klass p best rule: best_import_path_loop.induct)
  case (1 w klass module_path best_path)
  let ?q = "fst (rpartition_dot module_path)"
  show ?case
  proof (cases "?q = []")
    case True
    then show ?thesis
      by (simp add: best_import_path_loop.simps [of w klass module_path]
          dotted_prefixes.simps [of module_path])
  next
    case False
    then have dp: "dotted_prefixes module_path = ?q # dotted_prefixes ?q"
      by (simp add: dotted_prefixes.simps [of module_path] Let_def)
    from "1.prems" dp obtain m where m: "import_module w ?q = Inr m" by auto
    from "1.prems" dp have rest: "\<forall>q \<in> set (dotted_prefixes ?q). \<exists>m. import_module w q = Inr m"
      by simp
    show ?thesis
    proof (cases "reexposes w m klass")
      case True
      then have "best_import_path_loop w klass module_path best_path
                   = best_import_path_loop w klass ?q ?q"
        using False m by (simp add: best_import_path_loop.simps [of w klass module_path] Let_def)
      also have "\<dots> = Inr (last (?q # filter (passes w klass) (dotted_prefixes ?q)))"
        using "1.IH"(1) [OF refl False m True rest] .
      finally show ?thesis using True m by (simp add: dp passes_def [of w klass ?q])
    next
      case nope: False
      then have "best_import_path_loop w klass module_path best_path
                   = best_import_path_loop w klass ?q best_path"
        using False m by (simp add: best_import_path_loop.simps [of w klass module_path] Let_def)
      also have "\<dots> = Inr (last (best_path # filter (passes w klass) (dotted_prefixes ?q)))"
        using "1.IH"(2) [OF refl False m nope rest] .
      finally show ?thesis using nope m by (simp add: dp passes_def [of w klass ?q])
    qed
  qed
qed

lemma best_import_path_loop_importable:
  "best_import_path_loop w klass p best = Inr r \<Longrightarrow>
     \<forall>q \<in> set (dotted_prefixes p). \<exists>m. import_module w q = Inr m"
proof (induction w klass p best rule: best_import_path_loop.induct)
  case (1 w klass module_path best_path)
  let ?q = "fst (rpartition_dot module_path)"
  show ?case
  proof (cases "?q = []")
    case True
    then show ?thesis by (simp add: dotted_prefixes.simps [of module_path])
  next
    case False
    then have dp: "dotted_prefixes module_path = ?q # dotted_prefixes ?q"
      by (simp add: dotted_prefixes.simps [of module_path] Let_def)
    from "1.prems" False obtain m where m: "import_module w ?q = Inr m"
      by (cases "import_module w ?q")
        (auto simp: best_import_path_loop.simps [of w klass module_path] Let_def)
    have "\<forall>q \<in> set (dotted_prefixes ?q). \<exists>m. import_module w q = Inr m"
    proof (cases "reexposes w m klass")
      case True
      with "1.prems" False m have "best_import_path_loop w klass ?q ?q = Inr r"
        by (simp add: best_import_path_loop.simps [of w klass module_path] Let_def)
      from "1.IH"(1) [OF refl False m True this] show ?thesis .
    next
      case nope: False
      with "1.prems" False m have "best_import_path_loop w klass ?q best_path = Inr r"
        by (simp add: best_import_path_loop.simps [of w klass module_path] Let_def)
      from "1.IH"(2) [OF refl False m nope this] show ?thesis .
    qed
    then show ?thesis using m dp by simp
  qed
qed

lemma rpartition_dot_split:
  assumes "fst (rpartition_dot s) \<noteq> []"
  shows "\<exists>rest. s = fst (rpartition_dot s) @ ''.'' @ rest"
proof -
  have dot: "CHR ''.'' \<in> set s"
    using assms by (auto simp: rpartition_dot_def split: if_splits)
  then have ne: "dropWhile (\<lambda>c. c \<noteq> CHR ''.'') (rev s) \<noteq> []"
    by (simp add: dropWhile_eq_Nil_conv)
  then obtain a as where aas: "dropWhile (\<lambda>c. c \<noteq> CHR ''.'') (rev s) = a # as"
    by (cases "dropWhile (\<lambda>c. c \<noteq> CHR ''.'') (rev s)") auto
  from hd_dropWhile [OF ne] aas have "a = CHR ''.''" by simp
  with aas have dw: "dropWhile (\<lambda>c. c \<noteq> CHR ''.'') (rev s) = CHR ''.'' # as" by simp
  have "rev s = takeWhile (\<lambda>c. c \<noteq> CHR ''.'') (rev s) @ CHR ''.'' # as"
    using takeWhile_dropWhile_id [of "\<lambda>c. c \<noteq> CHR ''.''" "rev s"] dw by simp
  then have "rev (rev s) = rev (takeWhile (\<lambda>c. c \<noteq> CHR ''.'') (rev s) @ CHR ''.'' # as)"
    by simp
  then have "s = rev as @ ''.'' @ rev (takeWhile (\<lambda>c. c \<noteq> CHR ''.'') (rev s))"
    by simp
  moreover have "fst (rpartition_dot s) = rev as"
    using dot dw by (simp add: rpartition_dot_def)
  ultimately show ?thesis by metis
qed

lemma dotted_prefixes_prefix:
  "q \<in> set (dotted_prefixes s) \<Longrightarrow> \<exists>rest. s = q @ ''.'' @ rest"
proof (induction s rule: dotted_prefixes.induct)
  case (1 module_path)
  let ?q = "fst (rpartition_dot module_path)"
  from "1.prems" have ne: "?q \<noteq> []"
    by (auto simp: dotted_prefixes.simps [of module_path] Let_def split: if_splits)
  then have dp: "dotted_prefixes module_path = ?q # dotted_prefixes ?q"
    by (simp add: dotted_prefixes.simps [of module_path] Let_def)
  from rpartition_dot_split [OF ne] obtain t where t: "module_path = ?q @ ''.'' @ t" by blast
  show ?case
  proof (cases "q = ?q")
    case True
    then show ?thesis using t by blast
  next
    case False
    with "1.prems" dp have "q \<in> set (dotted_prefixes ?q)" by simp
    from "1.IH" [OF refl ne this] obtain r where "?q = q @ ''.'' @ r" by blast
    then have "module_path = q @ ''.'' @ (r @ ''.'' @ t)" using t by (metis append.assoc)
    then show ?thesis by blast
  qed
qed

lemma dotted_prefixes_shrink:
  "sorted_wrt (\<lambda>p q. length q < length p) (dotted_prefixes s)"
proof (induction s rule: dotted_prefixes.induct)
  case (1 module_path)
  let ?q = "fst (rpartition_dot module_path)"
  show ?case
  proof (cases "?q = []")
    case True
    then show ?thesis by (simp add: dotted_prefixes.simps [of module_path])
  next
    case False
    then have dp: "dotted_prefixes module_path = ?q # dotted_prefixes ?q"
      by (simp add: dotted_prefixes.simps [of module_path] Let_def)
    have "length q < length ?q" if "q \<in> set (dotted_prefixes ?q)" for q
      using dotted_prefixes_prefix [OF that] by auto
    then show ?thesis using "1.IH" [OF refl False] dp by simp
  qed
qed

lemma py_eq_class: "isclass w b \<Longrightarrow> py_eq w a b \<longleftrightarrow> a = b"
  by (auto simp: py_eq_def isclass_def split: pydata.splits)

lemma passes_round_trip:
  "passes w klass q \<Longrightarrow> isclass w klass \<Longrightarrow> round_trip w klass q"
  by (auto simp: passes_def round_trip_def reexposes_def py_eq_class
      split: sum.splits option.splits)

text \<open>
  Claim C2, in the form that holds of the code.
  The search starts at the defining module path and strips the
  last dotted component again and again until nothing is left, importing and testing
  every prefix on the way; a prefix that fails the test does not end it.  When all
  prefixes import, the result is the last of those that pass, which is the shortest
  (the prefixes get shorter, each a dotted prefix of the module path), and the module
  path itself when none passes.  The search returns only if every prefix imports.
\<close>

theorem best_import_path_search:
  "((\<forall>q \<in> set (dotted_prefixes (dunder_module (heap w klass))). \<exists>m. import_module w q = Inr m) \<longrightarrow>
      get_best_import_path_for_class w klass
        = Inr (last (dunder_module (heap w klass)
                     # filter (passes w klass) (dotted_prefixes (dunder_module (heap w klass))))))
   \<and> (get_best_import_path_for_class w klass = Inr best \<longrightarrow>
        (\<forall>q \<in> set (dotted_prefixes (dunder_module (heap w klass))). \<exists>m. import_module w q = Inr m))
   \<and> sorted_wrt (\<lambda>p q. length q < length p) (dotted_prefixes s)
   \<and> (\<forall>q \<in> set (dotted_prefixes s). \<exists>rest. s = q @ ''.'' @ rest)"
  using best_import_path_loop_filter [of "dunder_module (heap w klass)" w klass
      "dunder_module (heap w klass)"]
    best_import_path_loop_importable [of w klass "dunder_module (heap w klass)"
      "dunder_module (heap w klass)" best]
    dotted_prefixes_shrink [of s] dotted_prefixes_prefix [of _ s]
  unfolding get_best_import_path_for_class_def by blast

theorem best_import_path_search_witness:
  "map (import_module pkg) (dotted_prefixes (dunder_module (heap pkg 3))) = [Inr 2, Inr 1]
   \<and> dotted_prefixes (dunder_module (heap pkg 3)) = [''pkg.core'', ''pkg'']
   \<and> filter (passes pkg 3) (dotted_prefixes (dunder_module (heap pkg 3))) = [''pkg'']
   \<and> get_best_import_path_for_class pkg 3 = Inr ''pkg''"
proof -
  have dp: "dotted_prefixes (dunder_module (heap pkg 3)) = [''pkg.core'', ''pkg'']"
    by code_simp
  have imp: "import_module pkg ''pkg.core'' = Inr 2" "import_module pkg ''pkg'' = Inr 1"
    by code_simp+
  have f: "filter (passes pkg 3) [''pkg.core'', ''pkg''] = [''pkg'']" by code_simp
  have h: "\<forall>q \<in> set (dotted_prefixes (dunder_module (heap pkg 3))). \<exists>m. import_module pkg q = Inr m"
    using imp by (simp add: dp)
  have f': "filter (passes pkg 3) (dotted_prefixes (dunder_module (heap pkg 3))) = [''pkg'']"
    unfolding dp by (rule f)
  from best_import_path_search [of pkg 3] h
  have "get_best_import_path_for_class pkg 3
        = Inr (last (dunder_module (heap pkg 3)
                     # filter (passes pkg 3) (dotted_prefixes (dunder_module (heap pkg 3)))))"
    by blast
  then have "get_best_import_path_for_class pkg 3 = Inr (last (dunder_module (heap pkg 3) # [''pkg'']))"
    unfolding f' .
  then have res: "get_best_import_path_for_class pkg 3 = Inr ''pkg''"
    by simp
  have i: "map (import_module pkg) (dotted_prefixes (dunder_module (heap pkg 3))) = [Inr 2, Inr 1]"
    unfolding dp using imp by simp
  from i dp f' res show ?thesis by blast
qed

text \<open>
  The claim as stated has the search stop at the first prefix that fails.  For \<^verbatim>\<open>Field\<close>
  of \<^verbatim>\<open>pkg.core.fields\<close> the prefix \<^verbatim>\<open>pkg.core\<close> fails and \<^verbatim>\<open>pkg\<close> passes: the
  importer returns \<^verbatim>\<open>pkg\<close>, where a search that stops at the first failure returns
  \<^verbatim>\<open>pkg.core.fields\<close>.
\<close>

theorem best_import_path_search_counterexample:
  "dunder_module (heap pkg 3) = ''pkg.core.fields''
   \<and> dotted_prefixes ''pkg.core.fields'' = [''pkg.core'', ''pkg'']
   \<and> \<not> passes pkg 3 ''pkg.core''
   \<and> passes pkg 3 ''pkg''
   \<and> get_best_import_path_for_class pkg 3 = Inr ''pkg''
   \<and> spec_best_import_path pkg 3 = ''pkg.core.fields''"
  by code_simp

text \<open>
  Claim C9, in the form that holds of the code.
  The best import path of a class is its defining module path or
  a dotted prefix of it.  When it is a proper prefix, importing it and looking up the
  simple name of the class gives the class itself; when it is the module path, it does
  so provided the defining module binds the class under its simple name, which the
  search does not test.
\<close>

theorem best_import_path_round_trip:
  "get_best_import_path_for_class w klass = Inr best \<and> isclass w klass \<longrightarrow>
     (best = dunder_module (heap w klass)
        \<or> (\<exists>rest. dunder_module (heap w klass) = best @ ''.'' @ rest))
     \<and> (best \<noteq> dunder_module (heap w klass) \<longrightarrow> round_trip w klass best)
     \<and> (round_trip w klass (dunder_module (heap w klass)) \<longrightarrow> round_trip w klass best)"
proof (intro impI)
  let ?m = "dunder_module (heap w klass)"
  assume a: "get_best_import_path_for_class w klass = Inr best \<and> isclass w klass"
  then have imp: "\<forall>q \<in> set (dotted_prefixes ?m). \<exists>m. import_module w q = Inr m"
    using best_import_path_loop_importable [of w klass ?m ?m best]
    by (simp add: get_best_import_path_for_class_def)
  from best_import_path_loop_filter [OF imp, of klass ?m] a
  have best: "best = last (?m # filter (passes w klass) (dotted_prefixes ?m))"
    by (simp add: get_best_import_path_for_class_def)
  have cases: "best = ?m \<or> (best \<in> set (dotted_prefixes ?m) \<and> passes w klass best)"
  proof (cases "filter (passes w klass) (dotted_prefixes ?m) = []")
    case True
    then show ?thesis using best by simp
  next
    case False
    then have "best \<in> set (filter (passes w klass) (dotted_prefixes ?m))"
      using best last_in_set [OF False] by simp
    then show ?thesis by simp
  qed
  have p1: "best = ?m \<or> (\<exists>rest. ?m = best @ ''.'' @ rest)"
    using cases dotted_prefixes_prefix [of best ?m] by blast
  have p2: "round_trip w klass best" if "best \<noteq> ?m"
    using that cases passes_round_trip a by blast
  have p3: "round_trip w klass best" if "round_trip w klass ?m"
    using that p2 by (cases "best = ?m") auto
  show "(best = ?m \<or> (\<exists>rest. ?m = best @ ''.'' @ rest))
     \<and> (best \<noteq> ?m \<longrightarrow> round_trip w klass best)
     \<and> (round_trip w klass ?m \<longrightarrow> round_trip w klass best)"
    using p1 p2 p3 by blast
qed

theorem best_import_path_round_trip_witness:
  "get_best_import_path_for_class pkg 3 = Inr ''pkg'' \<and> isclass pkg 3
   \<and> dunder_module (heap pkg 3) = ''pkg'' @ ''.'' @ ''core.fields''
   \<and> ''pkg'' \<noteq> dunder_module (heap pkg 3)
   \<and> round_trip pkg 3 (dunder_module (heap pkg 3))
   \<and> round_trip pkg 3 ''pkg''"
proof -
  have h: "get_best_import_path_for_class pkg 3 = Inr ''pkg''" "isclass pkg 3"
    "dunder_module (heap pkg 3) = ''pkg'' @ ''.'' @ ''core.fields''"
    "''pkg'' \<noteq> dunder_module (heap pkg 3)"
    "round_trip pkg 3 (dunder_module (heap pkg 3))"
    by code_simp+
  from best_import_path_round_trip [of pkg 3 "''pkg''"] h show ?thesis by blast
qed

text \<open>
  The claim as stated promises the round trip for every discovered class.  The class
  named \<^verbatim>\<open>BaseForm\<close> is discovered as the member \<^verbatim>\<open>Form\<close> of \<^verbatim>\<open>shop.views\<close>; its best
  import path is \<^verbatim>\<open>shop.views\<close>, where the name \<^verbatim>\<open>BaseForm\<close> is not bound.
\<close>

theorem best_import_path_round_trip_counterexample:
  "process_member 1 shop_alias 16 ''Form'' ''shop'' (Some 2)
     = ([Klass ''BaseForm'' ''shop.views'' [] 40 ''shop.views.BaseForm'' [''builtins.object'']
           ''shop.views''], Exhausted)
   \<and> get_best_import_path_for_class shop_alias 16 = Inr ''shop.views''
   \<and> import_module shop_alias ''shop.views'' = Inr 2
   \<and> getattr shop_alias 2 ''BaseForm'' = None
   \<and> \<not> round_trip shop_alias 16 ''shop.views''"
  by code_simp

subsection \<open>Which classes of a module are recorded\<close>






subsection \<open>Attribute shadowing\<close>

lemma group_descendants_Inr:
  "group_descendants table klass_lookup entries = Inr D \<Longrightarrow>
     D = descendants_of_group table klass_lookup entries
     \<and> (\<forall>(kpath, line) \<in> set entries. klass_lookup kpath \<noteq> None)"
proof (induction entries arbitrary: D)
  case Nil
  then show ?case by (simp add: descendants_of_group_def)
next
  case (Cons a entries)
  obtain kpath line where a: "a = (kpath, line)" by (cases a)
  from Cons.prems obtain klass D' where k: "klass_lookup kpath = Some klass"
    and D': "group_descendants table klass_lookup entries = Inr D'"
    and D: "D = get_all_children table klass \<union> D'"
    unfolding a by (auto split: option.splits sum.splits)
  from Cons.IH [OF D'] k D show ?case
    unfolding a by (auto simp: descendants_of_group_def)
qed

lemma group_descendants_total:
  "(\<forall>(kpath, line) \<in> set entries. klass_lookup kpath \<noteq> None) \<Longrightarrow>
     \<exists>D. group_descendants table klass_lookup entries = Inr D"
  by (induction entries) auto

lemma attribute_models_of_group_rows:
  assumes "attribute_models_of_group table klass_lookup ((name, val), entries) = Inr rows"
  shows "row \<in> set rows \<longleftrightarrow>
     (\<exists>kpath line klass. (kpath, line) \<in> set entries \<and> klass_lookup kpath = Some klass
        \<and> klass \<notin> descendants_of_group table klass_lookup entries
        \<and> row = \<lparr>at_klass = klass, at_line_number = line, at_name = name, at_value = val\<rparr>)"
proof -
  from assms obtain D where D: "group_descendants table klass_lookup entries = Inr D"
    by (auto simp: attribute_models_of_group_def split: sum.splits)
  from group_descendants_Inr [OF D]
  have DD: "D = descendants_of_group table klass_lookup entries" by simp
  from assms D have rows: "rows = concat (map (\<lambda>(kpath, line).
                                 case klass_lookup kpath of
                                   None \<Rightarrow> []
                                 | Some klass \<Rightarrow>
                                     [\<lparr>at_klass = klass, at_line_number = line,
                                       at_name = name, at_value = val\<rparr>])
                             (remaining_klasses klass_lookup D entries))"
    by (simp add: attribute_models_of_group_def)
  show ?thesis unfolding rows DD [symmetric]
    by (auto simp: remaining_klasses_def split: option.splits) force+
qed


lemma create_attributes_rows:
  "create_attributes table attrs klass_lookup = Inr rows \<Longrightarrow>
     row \<in> set rows \<longleftrightarrow>
       (\<exists>name val entries kpath line klass.
           ((name, val), entries) \<in> set attrs \<and> (kpath, line) \<in> set entries
           \<and> klass_lookup kpath = Some klass
           \<and> klass \<notin> descendants_of_group table klass_lookup entries
           \<and> row = \<lparr>at_klass = klass, at_line_number = line, at_name = name, at_value = val\<rparr>)"
proof -
  define G where "G = (\<lambda>name val entries.
     \<exists>kpath line klass. (kpath, line) \<in> set entries \<and> klass_lookup kpath = Some klass
        \<and> klass \<notin> descendants_of_group table klass_lookup entries
        \<and> row = \<lparr>at_klass = klass, at_line_number = line, at_name = name, at_value = val\<rparr>)"
  have "create_attributes table attrs klass_lookup = Inr rows \<Longrightarrow>
     row \<in> set rows \<longleftrightarrow> (\<exists>name val entries. ((name, val), entries) \<in> set attrs \<and> G name val entries)"
  proof (induction attrs arbitrary: rows)
    case Nil
    then show ?case by simp
  next
    case (Cons a attrs)
    obtain name val entries where a: "a = ((name, val), entries)" by (cases a) auto
    from Cons.prems obtain rows1 rows2 where
      r1: "attribute_models_of_group table klass_lookup ((name, val), entries) = Inr rows1"
      and r2: "create_attributes table attrs klass_lookup = Inr rows2"
      and rows: "rows = rows1 @ rows2"
      unfolding a by (auto split: sum.splits)
    have g1: "row \<in> set rows1 \<longleftrightarrow> G name val entries"
      unfolding G_def by (rule attribute_models_of_group_rows [OF r1])
    have g2: "row \<in> set rows2 \<longleftrightarrow>
        (\<exists>name val entries. ((name, val), entries) \<in> set attrs \<and> G name val entries)"
      by (rule Cons.IH [OF r2])
    show ?case unfolding rows a using g1 g2 by auto
  qed
  then show "create_attributes table attrs klass_lookup = Inr rows \<Longrightarrow>
     row \<in> set rows \<longleftrightarrow>
       (\<exists>name val entries kpath line klass.
           ((name, val), entries) \<in> set attrs \<and> (kpath, line) \<in> set entries
           \<and> klass_lookup kpath = Some klass
           \<and> klass \<notin> descendants_of_group table klass_lookup entries
           \<and> row = \<lparr>at_klass = klass, at_line_number = line, at_name = name, at_value = val\<rparr>)"
    unfolding G_def by blast
qed

lemma attribute_models_of_group_total:
  "(\<forall>(kpath, line) \<in> set entries. klass_lookup kpath \<noteq> None) \<Longrightarrow>
     \<exists>rows. attribute_models_of_group table klass_lookup (key, entries) = Inr rows"
  using group_descendants_total [of entries klass_lookup table]
  by (cases key) (auto simp: attribute_models_of_group_def)

lemma create_attributes_total:
  "(\<forall>(key, entries) \<in> set attrs. \<forall>(kpath, line) \<in> set entries. klass_lookup kpath \<noteq> None) \<Longrightarrow>
     \<exists>rows. create_attributes table attrs klass_lookup = Inr rows"
proof (induction attrs)
  case Nil
  then show ?case by simp
next
  case (Cons a attrs)
  obtain key entries where a: "a = (key, entries)" by (cases a)
  from Cons.prems a have "\<forall>(kpath, line) \<in> set entries. klass_lookup kpath \<noteq> None" by auto
  from attribute_models_of_group_total [OF this, of table key]
  obtain rows1 where "attribute_models_of_group table klass_lookup (key, entries) = Inr rows1"
    by blast
  moreover from Cons obtain rows2 where "create_attributes table attrs klass_lookup = Inr rows2"
    by auto
  ultimately show ?case unfolding a by simp
qed

lemma attributes_add_map_of:
  "map_of (attributes_add attrs key entry) =
     (map_of attrs)(key \<mapsto> (case map_of attrs key of None \<Rightarrow> [] | Some es \<Rightarrow> es) @ [entry])"
  by (induction attrs key entry rule: attributes_add.induct) (auto simp: fun_eq_iff)

lemma attributes_add_keys:
  "map fst (attributes_add attrs key entry) =
     (if key \<in> set (map fst attrs) then map fst attrs else map fst attrs @ [key])"
  by (induction attrs key entry rule: attributes_add.induct) auto

lemma get_all_children_trancl:
  "get_all_children table klass = {c. (klass, c) \<in> (inheritance_edges table)\<^sup>+}"
  by (auto simp: get_all_children_def)

text \<open>
  Claim C1.  \<^verbatim>\<open>create_attributes\<close> turns the groups of candidates, one group for each
  (name, value), into rows: a row is created exactly for a candidate of a group whose
  class is not among the descendants of the classes of that group, where the
  descendants of a class are what the transitive closure of the inheritance edges
  reaches from it.  The call returns whenever the classes of all candidates are known.
  \<^verbatim>\<open>attributes[key] += [entry]\<close> keeps one group for each key.  For \<^verbatim>\<open>Base\<close> with
  \<^verbatim>\<open>x = 1\<close> and \<^verbatim>\<open>Detail(Base)\<close> that inherits it, the whole import leaves the one row of
  \<^verbatim>\<open>Base\<close>; when \<^verbatim>\<open>Detail\<close> sets \<^verbatim>\<open>x = 2\<close>, it leaves the row \<^verbatim>\<open>x = 1\<close> of \<^verbatim>\<open>Base\<close> and the
  row \<^verbatim>\<open>x = 2\<close> of \<^verbatim>\<open>Detail\<close>.
\<close>

theorem attribute_shadowing:
  "(create_attributes table attrs klass_lookup = Inr rows \<longrightarrow>
      (row \<in> set rows \<longleftrightarrow>
         (\<exists>name val entries kpath line klass.
             ((name, val), entries) \<in> set attrs \<and> (kpath, line) \<in> set entries
             \<and> klass_lookup kpath = Some klass
             \<and> klass \<notin> descendants_of_group table klass_lookup entries
             \<and> row = \<lparr>at_klass = klass, at_line_number = line, at_name = name,
                       at_value = val\<rparr>)))
   \<and> ((\<forall>(key, entries) \<in> set attrs. \<forall>(kpath, line) \<in> set entries. klass_lookup kpath \<noteq> None) \<longrightarrow>
        (\<exists>rows. create_attributes table attrs klass_lookup = Inr rows))
   \<and> get_all_children table klass = {c. (klass, c) \<in> (inheritance_edges table)\<^sup>+}
   \<and> map_of (attributes_add attrs key entry) =
        (map_of attrs)(key \<mapsto> (case map_of attrs key of None \<Rightarrow> [] | Some es \<Rightarrow> es) @ [entry])
   \<and> (distinct (map fst attrs) \<longrightarrow> distinct (map fst (attributes_add attrs key entry)))
   \<and> fst (handle 3 shop_x [''shop'']) = Exhausted
   \<and> map (\<lambda>k. (kr_pk k, kr_name k)) (klass_table (snd (handle 3 shop_x [''shop''])))
        = [(0, ''Base''), (1, ''Detail'')]
   \<and> inheritance_table (snd (handle 3 shop_x [''shop''])) = x_table
   \<and> attributes (snd (handle 3 shop_x [''shop''])) = x_attributes
   \<and> attribute_table (snd (handle 3 shop_x [''shop''])) = [x_row 0 ''1'']
   \<and> fst (handle 3 shop_x2 [''shop'']) = Exhausted
   \<and> map (\<lambda>k. (kr_pk k, kr_name k)) (klass_table (snd (handle 3 shop_x2 [''shop''])))
        = [(0, ''Base''), (1, ''Detail'')]
   \<and> inheritance_table (snd (handle 3 shop_x2 [''shop''])) = x_table
   \<and> attribute_table (snd (handle 3 shop_x2 [''shop''])) = [x_row 0 ''1'', x_row 1 ''2'']"
proof -
  have a: "row \<in> set rows \<longleftrightarrow>
         (\<exists>name val entries kpath line klass.
             ((name, val), entries) \<in> set attrs \<and> (kpath, line) \<in> set entries
             \<and> klass_lookup kpath = Some klass
             \<and> klass \<notin> descendants_of_group table klass_lookup entries
             \<and> row = \<lparr>at_klass = klass, at_line_number = line, at_name = name,
                       at_value = val\<rparr>)"
    if "create_attributes table attrs klass_lookup = Inr rows"
    by (rule create_attributes_rows [OF that])
  have b: "\<exists>rows. create_attributes table attrs klass_lookup = Inr rows"
    if "\<forall>(key, entries) \<in> set attrs. \<forall>(kpath, line) \<in> set entries. klass_lookup kpath \<noteq> None"
    by (rule create_attributes_total [OF that])
  have d: "distinct (map fst (attributes_add attrs key entry))" if "distinct (map fst attrs)"
    using that by (simp add: attributes_add_keys)
  have e1: "fst (handle 3 shop_x [''shop'']) = Exhausted" by code_simp
  have e2: "map (\<lambda>k. (kr_pk k, kr_name k)) (klass_table (snd (handle 3 shop_x [''shop''])))
        = [(0, ''Base''), (1, ''Detail'')]" by code_simp
  have e3: "inheritance_table (snd (handle 3 shop_x [''shop''])) = x_table" by code_simp
  have e4: "attributes (snd (handle 3 shop_x [''shop''])) = x_attributes" by code_simp
  have e5: "attribute_table (snd (handle 3 shop_x [''shop''])) = [x_row 0 ''1'']" by code_simp
  have f1: "fst (handle 3 shop_x2 [''shop'']) = Exhausted" by code_simp
  have f2: "map (\<lambda>k. (kr_pk k, kr_name k)) (klass_table (snd (handle 3 shop_x2 [''shop''])))
        = [(0, ''Base''), (1, ''Detail'')]" by code_simp
  have f3: "inheritance_table (snd (handle 3 shop_x2 [''shop''])) = x_table" by code_simp
  have f5: "attribute_table (snd (handle 3 shop_x2 [''shop''])) = [x_row 0 ''1'', x_row 1 ''2'']"
    by code_simp
  show ?thesis
    using a b get_all_children_trancl [of table klass] attributes_add_map_of [of attrs key entry] d
      e1 e2 e3 e4 e5 f1 f2 f3 f5
    by (intro conjI impI) blast+
qed

theorem attribute_shadowing_witness:
  "create_attributes x_table x_attributes x_lookup = Inr [x_row 0 ''1'']
   \<and> map (\<lambda>(key, entries). map (\<lambda>(kpath, line). x_lookup kpath) entries) x_attributes
       = [[Some 0, Some 1]]
   \<and> distinct (map fst x_attributes)
   \<and> (\<exists>name val entries kpath line klass.
         ((name, val), entries) \<in> set x_attributes \<and> (kpath, line) \<in> set entries
         \<and> x_lookup kpath = Some klass
         \<and> klass \<notin> descendants_of_group x_table x_lookup entries
         \<and> x_row 0 ''1'' = \<lparr>at_klass = klass, at_line_number = line, at_name = name,
                               at_value = val\<rparr>)
   \<and> \<not> (\<exists>name val entries kpath line klass.
         ((name, val), entries) \<in> set x_attributes \<and> (kpath, line) \<in> set entries
         \<and> x_lookup kpath = Some klass
         \<and> klass \<notin> descendants_of_group x_table x_lookup entries
         \<and> x_row 1 ''1'' = \<lparr>at_klass = klass, at_line_number = line, at_name = name,
                               at_value = val\<rparr>)
   \<and> get_all_children x_table 0 = {1} \<and> get_all_children x_table 1 = {}"
proof -
  have c: "create_attributes x_table x_attributes x_lookup = Inr [x_row 0 ''1'']" by code_simp
  have h: "\<forall>(key, entries) \<in> set x_attributes. \<forall>(kpath, line) \<in> set entries. x_lookup kpath \<noteq> None"
    by (simp add: x_attributes_def x_lookup_def)
  have l: "map (\<lambda>(key, entries). map (\<lambda>(kpath, line). x_lookup kpath) entries) x_attributes
       = [[Some 0, Some 1]]"
    by (simp add: x_attributes_def x_lookup_def)
  have d: "distinct (map fst x_attributes)" by (simp add: x_attributes_def)
  have m: "x_row 0 ''1'' \<in> set [x_row 0 ''1'']" "x_row 1 ''1'' \<notin> set [x_row 0 ''1'']"
    by (simp_all add: x_row_def)
  have g: "get_all_children x_table 0 = {1}" "get_all_children x_table 1 = {}"
    by code_simp+
  from attribute_shadowing [of x_table x_attributes x_lookup "[x_row 0 ''1'']" "x_row 0 ''1''"]
    attribute_shadowing [of x_table x_attributes x_lookup "[x_row 0 ''1'']" "x_row 1 ''1''"]
    c h l d m g
  show ?thesis by blast
qed

end
